theory Spec2Isabelle
  imports Complex_Main "HOL-Library.Word"
begin

section \<open>JavaScript values used by the SDK\<close>

text \<open>
  \<open>localStorage.getItem\<close> returns a string or \<open>null\<close>; the source tests such values
  with \<open>!x\<close> and \<open>if (x)\<close>, so \<open>null\<close> and the empty string are both falsy.
\<close>

fun truthy :: "string option \<Rightarrow> bool" where
  "truthy None = False"
| "truthy (Some s) = (s \<noteq> [])"

text \<open>\<open>a || b\<close> on strings-or-undefined.\<close>

definition js_or :: "string option \<Rightarrow> string option \<Rightarrow> string option" where
  "js_or a b = (if truthy a then a else b)"

text \<open>\<open>xs[i]\<close>: reading past the end of an array gives \<open>undefined\<close> (here \<open>None\<close>).\<close>

fun js_index :: "'a list \<Rightarrow> nat \<Rightarrow> 'a option" where
  "js_index [] i = None"
| "js_index (x # xs) 0 = Some x"
| "js_index (x # xs) (Suc i) = js_index xs i"

text \<open>\<open>s.includes(sub)\<close> and \<open>s.endsWith(sub)\<close>.\<close>

fun str_includes :: "string \<Rightarrow> string \<Rightarrow> bool" where
  "str_includes [] sub = (sub = [])"
| "str_includes (c # cs) sub = (take (length sub) (c # cs) = sub \<or> str_includes cs sub)"

definition endsWith :: "string \<Rightarrow> string \<Rightarrow> bool" where
  "endsWith s sub = (length sub \<le> length s \<and> drop (length s - length sub) s = sub)"

text \<open>Decimal rendering of an HTTP status inside a template literal.\<close>

definition digit_char :: "nat \<Rightarrow> char" where
  "digit_char d = char_of (48 + d)"

fun show_nat :: "nat \<Rightarrow> string" where
  "show_nat n = (if n < 10 then [digit_char n] else show_nat (n div 10) @ [digit_char (n mod 10)])"

declare show_nat.simps [simp del]

text \<open>
  \<open>amount % 1\<close>: the remainder has the sign of the dividend, so it is the amount minus
  its truncation towards zero.
\<close>

definition js_mod1 :: "rat \<Rightarrow> rat" where
  "js_mod1 x = (if 0 \<le> x then x - of_int \<lfloor>x\<rfloor> else x - of_int \<lceil>x\<rceil>)"

section \<open>JavaScript numbers\<close>

text \<open>
  A JavaScript number is an IEEE 754 double. Proof amounts are integers, so the numbers
  computed from them are integer-valued doubles or not finite. \<open>NonFinite\<close> stands for
  \<open>Infinity\<close>, \<open>-Infinity\<close> and \<open>NaN\<close> together: a sum or product with such an operand
  is again one of the three, and the source never compares these numbers.
\<close>

datatype jsnumber = Finite int | NonFinite

fun bit_length :: "nat \<Rightarrow> nat" where
  "bit_length n = (if n = 0 then 0 else Suc (bit_length (n div 2)))"

declare bit_length.simps [simp del]

text \<open>
  The double nearest to a natural number, ties to the even significand: up to 53 bits
  the number itself, beyond that a multiple of \<open>q = 2 ^ (bits - 53)\<close>.
\<close>

definition round_to_double :: "nat \<Rightarrow> nat" where
  "round_to_double n =
     (if bit_length n \<le> 53 then n
      else
        let q = 2 ^ (bit_length n - 53);
            m = n div q;
            r = n mod q;
            half = q div 2;
            m' = (if half < r \<or> (r = half \<and> odd m) then m + 1 else m)
        in m' * q)"

text \<open>
  The number that an integer denotes: what \<open>JSON.parse\<close> makes of an integer literal and
  what an arithmetic operation makes of its exact integer result. From \<open>2 ^ 1024\<close> on
  the rounded value is \<open>Infinity\<close>.
\<close>

definition js_number :: "int \<Rightarrow> jsnumber" where
  "js_number i =
     (let n = round_to_double (nat \<bar>i\<bar>)
      in if 2 ^ 1024 \<le> n then NonFinite else Finite (sgn i * int n))"

text \<open>\<open>a + b\<close> and \<open>a * b\<close> on numbers that are doubles already.\<close>

fun js_add :: "jsnumber \<Rightarrow> jsnumber \<Rightarrow> jsnumber" where
  "js_add (Finite a) (Finite b) = js_number (a + b)"
| "js_add _ _ = NonFinite"

fun js_mul :: "jsnumber \<Rightarrow> jsnumber \<Rightarrow> jsnumber" where
  "js_mul (Finite a) (Finite b) = js_number (a * b)"
| "js_mul _ _ = NonFinite"

section \<open>Data model\<close>

text \<open>
  \<open>CashuProof\<close> of \<open>utils/cashu.ts\<close>; the field \<open>id\<close> is named \<open>keyset_id\<close> here, and
  \<open>amount\<close> is the integer written in the stored JSON, read as a number by \<open>js_number\<close>.
\<close>

record CashuProof =
  amount :: int
  secret :: string
  C :: string
  keyset_id :: string

text \<open>
  The nostr-tools \<open>Event\<close>; the field \<open>id\<close> is named \<open>event_id\<close> here. A tag is an array
  of strings.
\<close>

record Event =
  kind :: nat
  pubkey :: string
  created_at :: nat
  tags :: "string list list"
  content :: string
  event_id :: string
  sig :: string

section \<open>Persisted state and the outside world\<close>

text \<open>
  A JSON blob under one \<open>localStorage\<close> key. \<open>Absent\<close>: \<open>getItem\<close> gives \<open>null\<close> (or the
  empty string, which every test \<open>!stored\<close> of the source treats alike); \<open>Corrupt err\<close>: a
  string on which \<open>JSON.parse\<close> throws a \<open>SyntaxError\<close> with message \<open>err\<close>;
  \<open>Holds xs\<close>: the string \<open>JSON.stringify(xs)\<close> of an array \<open>xs\<close>.
\<close>

datatype 'a slot = Absent | Corrupt string | Holds 'a

text \<open>What the SDK does to the outside world, in order: HTTP requests, mint calls, console output.\<close>

datatype io_event =
    FetchWallet string string
  | FetchRefund string string
  | MintLoad string
  | MintSend string rat "CashuProof list"
  | MintReceive string string
  | ConsoleWarn string
  | ConsoleError string

text \<open>
  \<open>hasLocalStorage\<close> is \<open>typeof localStorage !== 'undefined'\<close>; \<open>proofsKey\<close>, \<open>tokenKey\<close> and
  \<open>wrappedKey\<close> are the entries \<open>routstr_cashu_proofs\<close>, \<open>routstr_current_token\<close> and
  \<open>routstr_wrapped_cashu_tokens\<close>.
\<close>

record world =
  hasLocalStorage :: bool
  proofsKey :: "CashuProof list slot"
  tokenKey :: "string option"
  wrappedKey :: "Event list slot"
  trace :: "io_event list"

definition emit :: "io_event \<Rightarrow> world \<Rightarrow> world" where
  "emit ev w = w\<lparr>trace := trace w @ [ev]\<rparr>"

text \<open>
  \<open>fetch\<close>: the promise rejects (\<open>Rejects err\<close>), or a response arrives with a status and
  a body on which \<open>response.json()\<close> either rejects (\<open>Inl err\<close>) or gives the value.
\<close>

datatype 'a fetch_result = Rejects string | Responds nat "string + 'a"

definition response_ok :: "nat \<Rightarrow> bool" where
  "response_ok status = (200 \<le> status \<and> status \<le> 299)"

datatype send_result = SendThrows string | SendOk "CashuProof list" "CashuProof list"

datatype receive_result = ReceiveThrows string | ReceiveArray "CashuProof list" | ReceiveOther

text \<open>
  The remote service and the cashu-ts wallet, which the SDK only calls:
  \<open>wallet_get url bearer\<close> is \<open>GET v1/wallet/\<close> with body \<open>{balance}\<close>, an integer
  number of millisats;
  \<open>wallet_refund url bearer\<close> is \<open>POST v1/wallet/refund\<close> with body \<open>{token?}\<close>;
  \<open>loadMint mintUrl\<close> gives \<open>Some err\<close> when \<open>wallet.loadMint()\<close> throws;
  \<open>wallet_send mintUrl amount proofs\<close> gives \<open>SendOk send keep\<close> or throws;
  \<open>wallet_receive mintUrl token\<close> gives an array of proofs, some other value, or throws;
  \<open>btoa_json mintUrl send\<close> is \<open>btoa(JSON.stringify({token: [{mint, proofs}]}))\<close>, which
  throws (\<open>Inl err\<close>) on a character outside Latin-1;
  \<open>number_toString\<close> is the runtime's rendering of a number inside a template literal.
  Each function below calls each of them at most once in a run, so taking them as
  functions of their arguments loses no behaviour of a single run.
\<close>

record services =
  wallet_get :: "string \<Rightarrow> string \<Rightarrow> int fetch_result"
  wallet_refund :: "string \<Rightarrow> string \<Rightarrow> string option fetch_result"
  loadMint :: "string \<Rightarrow> string option"
  wallet_send :: "string \<Rightarrow> rat \<Rightarrow> CashuProof list \<Rightarrow> send_result"
  wallet_receive :: "string \<Rightarrow> string \<Rightarrow> receive_result"
  btoa_json :: "string \<Rightarrow> CashuProof list \<Rightarrow> string + string"
  number_toString :: "jsnumber \<Rightarrow> string"

section \<open>Token management (utils/cashu.ts)\<close>

definition MSATS_PER_SAT :: jsnumber where
  "MSATS_PER_SAT = Finite 1000"

definition DEFAULT_TOKEN_AMOUNT :: rat where
  "DEFAULT_TOKEN_AMOUNT = 50"

text \<open>\<open>proofs.reduce((total, proof) => total + proof.amount, 0)\<close>\<close>

definition sum_amounts :: "CashuProof list \<Rightarrow> jsnumber" where
  "sum_amounts proofs =
     foldl (\<lambda>total proof. js_add total (js_number (amount proof))) (Finite 0) proofs"

definition getBalanceFromStoredProofs :: "world \<Rightarrow> jsnumber \<times> world" where
  "getBalanceFromStoredProofs w =
     (if \<not> hasLocalStorage w then (Finite 0, w)
      else case proofsKey w of
             Absent \<Rightarrow> (Finite 0, w)
           | Corrupt err \<Rightarrow>
               (Finite 0, emit (ConsoleError ''Error getting balance from stored proofs:'') w)
           | Holds proofs \<Rightarrow> (sum_amounts proofs, w))"

definition invalidateApiToken :: "world \<Rightarrow> world" where
  "invalidateApiToken w = (if hasLocalStorage w then w\<lparr>tokenKey := None\<rparr> else w)"

record op_result =
  success :: bool
  message :: "string option"

record import_result = op_result +
  imported :: "jsnumber option"

text \<open>
  The lines shared by \<open>refundRemainingBalance\<close> and \<open>importToken\<close>: build the wallet, load
  the mint, \<open>wallet.receive(token)\<close>, and \<open>Array.isArray(result) ? result : []\<close>.
  \<open>Inl err\<close> is an exception thrown on the way.
\<close>

definition receive_proofs ::
  "services \<Rightarrow> string \<Rightarrow> string \<Rightarrow> world \<Rightarrow> (string + CashuProof list) \<times> world" where
  "receive_proofs sv mintUrl tokenString w =
     (let w1 = emit (MintLoad mintUrl) w in
      case loadMint sv mintUrl of
        Some err \<Rightarrow> (Inl err, w1)
      | None \<Rightarrow>
          let w2 = emit (MintReceive mintUrl tokenString) w1 in
          case wallet_receive sv mintUrl tokenString of
            ReceiveThrows err \<Rightarrow> (Inl err, w2)
          | ReceiveArray proofs \<Rightarrow> (Inr proofs, w2)
          | ReceiveOther \<Rightarrow> (Inr [], w2))"

text \<open>
  Also shared: read the stored proofs (\<open>[]\<close> when absent, an exception when unparseable)
  and write back \<open>[...existingProofs, ...proofs]\<close>.
\<close>

definition append_proofs :: "CashuProof list \<Rightarrow> world \<Rightarrow> string + world" where
  "append_proofs proofs w =
     (case proofsKey w of
        Absent \<Rightarrow> Inr (w\<lparr>proofsKey := Holds ([] @ proofs)\<rparr>)
      | Corrupt err \<Rightarrow> Inl err
      | Holds existingProofs \<Rightarrow> Inr (w\<lparr>proofsKey := Holds (existingProofs @ proofs)\<rparr>))"

text \<open>The \<open>catch\<close> block of \<open>refundRemainingBalance\<close>.\<close>

definition refund_catch :: "string \<Rightarrow> world \<Rightarrow> op_result \<times> world" where
  "refund_catch err w =
     (\<lparr>success = False, message = Some err\<rparr>, emit (ConsoleError ''Error refunding balance:'') w)"

text \<open>Its last two statements: clear the current token, report success.\<close>

definition refund_finish :: "world \<Rightarrow> op_result \<times> world" where
  "refund_finish w =
     (\<lparr>success = True, message = Some ''Refund completed successfully''\<rparr>, invalidateApiToken w)"

definition refundRemainingBalance ::
  "services \<Rightarrow> string \<Rightarrow> string \<Rightarrow> string option \<Rightarrow> world \<Rightarrow> op_result \<times> world" where
  "refundRemainingBalance sv mintUrl baseUrl token w =
     (if \<not> hasLocalStorage w then
        (\<lparr>success = False, message = Some ''LocalStorage not available''\<rparr>, w)
      else
        case js_or token (tokenKey w) of
          None \<Rightarrow> (\<lparr>success = True, message = Some ''No token to refund''\<rparr>, w)
        | Some storedToken \<Rightarrow>
            if storedToken = [] then
              (\<lparr>success = True, message = Some ''No token to refund''\<rparr>, w)
            else if baseUrl = [] then
              (\<lparr>success = False, message = Some ''No base URL configured''\<rparr>, w)
            else
              let normalizedBaseUrl = (if endsWith baseUrl ''/'' then baseUrl else baseUrl @ ''/'');
                  url = normalizedBaseUrl @ ''v1/wallet/refund'';
                  w1 = emit (FetchRefund url storedToken) w
              in case wallet_refund sv url storedToken of
                   Rejects err \<Rightarrow> refund_catch err w1
                 | Responds status body \<Rightarrow>
                     if \<not> response_ok status then
                       refund_catch (''Refund request failed with status '' @ show_nat status) w1
                     else
                       case body of
                         Inl err \<Rightarrow> refund_catch err w1
                       | Inr None \<Rightarrow> refund_finish w1
                       | Inr (Some data_token) \<Rightarrow>
                           if data_token = [] then refund_finish w1
                           else
                             case receive_proofs sv mintUrl data_token w1 of
                               (Inl err, w2) \<Rightarrow> refund_catch err w2
                             | (Inr proofs, w2) \<Rightarrow>
                                 if proofs \<noteq> [] then
                                   (case append_proofs proofs w2 of
                                      Inl err \<Rightarrow> refund_catch err w2
                                    | Inr w3 \<Rightarrow> refund_finish w3)
                                 else refund_finish w2)"

text \<open>\<open>apiBalance\<close> is the integer number of millisats of the interface, or the initial 0.\<close>

record balances =
  apiBalance :: int
  proofsBalance :: jsnumber

text \<open>
  The \<open>try\<close> block of \<open>fetchBalances\<close> together with its \<open>catch\<close>: the value of the local
  \<open>apiBalance\<close> afterwards, and the world.
\<close>

definition fetch_api_balance :: "services \<Rightarrow> string \<Rightarrow> string \<Rightarrow> world \<Rightarrow> int \<times> world" where
  "fetch_api_balance sv mintUrl baseUrl w =
     (if hasLocalStorage w then
        (case tokenKey w of
           None \<Rightarrow> (0, w)
         | Some token \<Rightarrow>
             if token = [] then (0, w)
             else
               let url = baseUrl @ ''v1/wallet/'';
                   w1 = emit (FetchWallet url token) w
               in case wallet_get sv url token of
                    Rejects err \<Rightarrow> (0, emit (ConsoleError ''Error fetching API balance:'') w1)
                  | Responds status body \<Rightarrow>
                      if \<not> response_ok status then
                        (if status = 402 then
                           (0, emit (ConsoleWarn ''API token invalidated due to insufficient balance.'')
                                 (invalidateApiToken w1))
                         else
                           (0, emit (ConsoleError (''Failed to fetch wallet balance: '' @ show_nat status)) w1))
                      else
                        case body of
                          Inl err \<Rightarrow> (0, emit (ConsoleError ''Error fetching API balance:'') w1)
                        | Inr balance \<Rightarrow>
                            if balance > 0 then
                              (0, snd (refundRemainingBalance sv mintUrl baseUrl None w1))
                            else (balance, w1))
      else (0, w))"

definition fetchBalances :: "services \<Rightarrow> string \<Rightarrow> string \<Rightarrow> world \<Rightarrow> balances \<times> world" where
  "fetchBalances sv mintUrl baseUrl w =
     (let (api, w1) = fetch_api_balance sv mintUrl baseUrl w;
          (stored, w2) = getBalanceFromStoredProofs w1
      in (\<lparr>apiBalance = api, proofsBalance = js_mul stored MSATS_PER_SAT\<rparr>, w2))"

text \<open>The \<open>catch\<close> block of \<open>generateApiToken\<close>: both branches return \<open>null\<close>.\<close>

definition generate_catch :: "string \<Rightarrow> world \<Rightarrow> string option \<times> world" where
  "generate_catch err w =
     (if str_includes err ''funds'' then (None, w)
      else (None, emit (ConsoleError ''Failed to generate API token:'') w))"

text \<open>The first statement of \<open>generateApiToken\<close>: a fractional amount is rounded up.\<close>

definition rounded_amount :: "rat \<Rightarrow> rat" where
  "rounded_amount amount0 = (if js_mod1 amount0 \<noteq> 0 then of_int \<lceil>amount0\<rceil> else amount0)"

definition generateApiToken ::
  "services \<Rightarrow> string \<Rightarrow> rat \<Rightarrow> world \<Rightarrow> string option \<times> world" where
  "generateApiToken sv mintUrl amount0 w =
     (if \<not> hasLocalStorage w then (None, w)
      else
        let amount = rounded_amount amount0 in
        case proofsKey w of
          Absent \<Rightarrow> (None, emit (ConsoleWarn ''No Cashu tokens found for generating API token'') w)
        | Corrupt err \<Rightarrow> generate_catch err w
        | Holds proofs \<Rightarrow>
            let w1 = emit (MintLoad mintUrl) w in
            case loadMint sv mintUrl of
              Some err \<Rightarrow> generate_catch err w1
            | None \<Rightarrow>
                let w2 = emit (MintSend mintUrl amount proofs) w1 in
                case wallet_send sv mintUrl amount proofs of
                  SendThrows err \<Rightarrow> generate_catch err w2
                | SendOk send keep \<Rightarrow>
                    if send = [] then (None, w2)
                    else
                      let w3 = w2\<lparr>proofsKey := Holds keep\<rparr> in
                      case btoa_json sv mintUrl send of
                        Inl err \<Rightarrow> generate_catch err w3
                      | Inr b64 \<Rightarrow> (Some (''cashuA'' @ b64), w3))"

text \<open>\<open>string | null | { hasTokens: false }\<close>\<close>

datatype token_result = Token string | Null | HasTokensFalse

definition getOrCreateApiToken ::
  "services \<Rightarrow> string \<Rightarrow> rat option \<Rightarrow> world \<Rightarrow> token_result \<times> world" where
  "getOrCreateApiToken sv mintUrl amount_arg w =
     (let amount = (case amount_arg of None \<Rightarrow> DEFAULT_TOKEN_AMOUNT | Some a \<Rightarrow> a) in
      if \<not> hasLocalStorage w then (Null, w)
      else
        case tokenKey w of
          Some (c # cs) \<Rightarrow> (Token (c # cs), w)
        | _ \<Rightarrow>
            (case proofsKey w of
               Absent \<Rightarrow> (HasTokensFalse, w)
             | _ \<Rightarrow>
                 (case generateApiToken sv mintUrl amount w of
                    (Some (c # cs), w1) \<Rightarrow> (Token (c # cs), w1\<lparr>tokenKey := Some (c # cs)\<rparr>)
                  | (_, w1) \<Rightarrow> (Null, w1))))"

definition importToken ::
  "services \<Rightarrow> string \<Rightarrow> string \<Rightarrow> world \<Rightarrow> import_result \<times> world" where
  "importToken sv tokenString mintUrl w =
     (if \<not> hasLocalStorage w then
        (\<lparr>success = False, message = Some ''LocalStorage not available'', imported = None\<rparr>, w)
      else
        let catch = (\<lambda>errorMessage w'.
              if str_includes errorMessage ''already spent'' then
                (\<lparr>success = False, message = Some ''This token has already been spent'',
                  imported = None\<rparr>, w')
              else (\<lparr>success = False, message = Some errorMessage, imported = None\<rparr>, w'))
        in case receive_proofs sv mintUrl tokenString w of
             (Inl err, w1) \<Rightarrow> catch err w1
           | (Inr proofs, w1) \<Rightarrow>
               if proofs = [] then
                 (\<lparr>success = False, message = Some ''Invalid token format'', imported = None\<rparr>, w1)
               else
                 case append_proofs proofs w1 of
                   Inl err \<Rightarrow> catch err w1
                 | Inr w2 \<Rightarrow>
                     let importedAmount = sum_amounts proofs in
                     (\<lparr>success = True,
                       message = Some (''Successfully imported '' @ number_toString sv importedAmount
                                       @ '' sats''),
                       imported = Some importedAmount\<rparr>, w2))"

section \<open>Gift wrap: structural check (utils/nip60.ts)\<close>

definition isValidCashuGiftWrap :: "Event \<Rightarrow> bool" where
  "isValidCashuGiftWrap event =
     (if kind event \<noteq> 1059 then False
      else
        let hasRecipient = list_ex (\<lambda>tag. js_index tag 0 = Some ''p'') (tags event);
            isCashuGift = list_ex (\<lambda>tag. js_index tag 0 = Some ''gift'' \<and>
                                         js_index tag 1 = Some ''cashu'') (tags event)
        in hasRecipient \<and> isCashuGift)"

section \<open>Gift wrap: wrapping, unwrapping and the sent-gift list (utils/nip60.ts)\<close>

text \<open>A private key is a \<open>Uint8Array\<close>.\<close>

type_synonym privkey = "8 word list"

text \<open>
  A value as \<open>JSON.parse\<close> returns it. \<open>JOther\<close> stands for a boolean, a number or an
  array: like a string, it has no property \<open>token\<close> or \<open>note\<close>.
\<close>

datatype json = JNull | JString string | JObject "(string \<times> json) list" | JOther

text \<open>
  \<open>value.key\<close>: a \<open>TypeError\<close> on \<open>null\<close> (\<open>Inl\<close>), \<open>undefined\<close> (\<open>None\<close>) when the property
  is missing.
\<close>

fun get_prop :: "json \<Rightarrow> string \<Rightarrow> string + json option" where
  "get_prop JNull k = Inl ''Cannot read properties of null''"
| "get_prop (JObject kvs) k = Inr (map_of kvs k)"
| "get_prop (JString s) k = Inr None"
| "get_prop JOther k = Inr None"

text \<open>
  The object \<open>{ token, note }\<close> as \<open>JSON.stringify\<close> sees it: a property whose value is
  \<open>undefined\<close> is left out.
\<close>

definition gift_payload :: "string \<Rightarrow> string option \<Rightarrow> json" where
  "gift_payload token note =
     JObject ((''token'', JString token) # (case note of None \<Rightarrow> [] | Some n \<Rightarrow> [(''note'', JString n)]))"

text \<open>
  What the SDK calls in nostr-tools and the JavaScript runtime; \<open>Inl err\<close> is a thrown
  exception. One value of this record fixes the random choices of \<open>nip04.encrypt\<close>.
\<close>

record nostr_tools =
  getPublicKey :: "privkey \<Rightarrow> string + string"
  nip04_encrypt :: "privkey \<Rightarrow> string \<Rightarrow> string \<Rightarrow> string + string"
  nip04_decrypt :: "privkey \<Rightarrow> string \<Rightarrow> string \<Rightarrow> string + string"
  getEventHash :: "Event \<Rightarrow> string"
  finalizeEvent :: "Event \<Rightarrow> privkey \<Rightarrow> string + Event"
  JSON_stringify :: "json \<Rightarrow> string"
  JSON_parse :: "string \<Rightarrow> string + json"

text \<open>
  \<open>GiftWrap\<close>, its fields prefixed with \<open>gift_\<close>; \<open>token\<close> and \<open>note\<close> hold whatever the
  decrypted JSON had there.
\<close>

record GiftWrap =
  gift_token :: "json option"
  gift_recipientPubkey :: string
  gift_note :: "json option"

text \<open>\<open>wrapCashuToken\<close> has no \<open>try\<close>: an exception of the library leaves it (\<open>Inl\<close>). \<open>now\<close> is \<open>Date.now()\<close>.\<close>

definition wrapCashuToken ::
  "nostr_tools \<Rightarrow> string \<Rightarrow> string \<Rightarrow> privkey \<Rightarrow> string option \<Rightarrow> nat \<Rightarrow> string + Event" where
  "wrapCashuToken nt token recipientPubkey senderPrivateKey note now =
     (case getPublicKey nt senderPrivateKey of
        Inl err \<Rightarrow> Inl err
      | Inr senderPubkey \<Rightarrow>
          (case nip04_encrypt nt senderPrivateKey recipientPubkey
                  (JSON_stringify nt (gift_payload token note)) of
             Inl err \<Rightarrow> Inl err
           | Inr encryptedContent \<Rightarrow>
               let event = \<lparr>kind = 1059, pubkey = senderPubkey, created_at = now div 1000,
                             tags = [ [''p'', recipientPubkey], [''gift'', ''cashu''] ],
                             content = encryptedContent, event_id = '''', sig = ''''\<rparr>;
                   event = event\<lparr>event_id := getEventHash nt event\<rparr>
               in finalizeEvent nt event senderPrivateKey))"

definition unwrapCashuToken ::
  "nostr_tools \<Rightarrow> Event \<Rightarrow> privkey \<Rightarrow> world \<Rightarrow> GiftWrap option \<times> world" where
  "unwrapCashuToken nt event recipientPrivateKey w =
     (let catch = (None, emit (ConsoleError ''Error unwrapping token:'') w) in
      case getPublicKey nt recipientPrivateKey of
        Inl err \<Rightarrow> catch
      | Inr recipientPubkey \<Rightarrow>
          let isForUs = list_ex (\<lambda>tag. js_index tag 0 = Some ''p'' \<and>
                                       js_index tag 1 = Some recipientPubkey) (tags event)
          in if \<not> isForUs then (None, w)
             else
               let isCashuGift = list_ex (\<lambda>tag. js_index tag 0 = Some ''gift'' \<and>
                                                js_index tag 1 = Some ''cashu'') (tags event)
               in if \<not> isCashuGift then (None, w)
                  else
                    case nip04_decrypt nt recipientPrivateKey (pubkey event) (content event) of
                      Inl err \<Rightarrow> catch
                    | Inr decryptedContent \<Rightarrow>
                        (case JSON_parse nt decryptedContent of
                           Inl err \<Rightarrow> catch
                         | Inr giftContent \<Rightarrow>
                             (case get_prop giftContent ''token'' of
                                Inl err \<Rightarrow> catch
                              | Inr tok \<Rightarrow>
                                  (case get_prop giftContent ''note'' of
                                     Inl err \<Rightarrow> catch
                                   | Inr nte \<Rightarrow>
                                       (Some \<lparr>gift_token = tok, gift_recipientPubkey = recipientPubkey,
                                               gift_note = nte\<rparr>, w)))))"

definition storeWrappedToken :: "Event \<Rightarrow> world \<Rightarrow> world" where
  "storeWrappedToken wrappedToken w =
     (if \<not> hasLocalStorage w then w
      else case wrappedKey w of
             Absent \<Rightarrow> w\<lparr>wrappedKey := Holds ([] @ [wrappedToken])\<rparr>
           | Corrupt err \<Rightarrow> emit (ConsoleError ''Error storing wrapped token:'') w
           | Holds tokens \<Rightarrow> w\<lparr>wrappedKey := Holds (tokens @ [wrappedToken])\<rparr>)"

definition getStoredWrappedTokens :: "world \<Rightarrow> Event list \<times> world" where
  "getStoredWrappedTokens w =
     (if \<not> hasLocalStorage w then ([], w)
      else case wrappedKey w of
             Absent \<Rightarrow> ([], w)
           | Corrupt err \<Rightarrow> ([], emit (ConsoleError ''Error getting wrapped tokens:'') w)
           | Holds tokens \<Rightarrow> (tokens, w))"

definition removeWrappedToken :: "string \<Rightarrow> world \<Rightarrow> world" where
  "removeWrappedToken tokenId w =
     (if \<not> hasLocalStorage w then w
      else
        let (tokens, w1) = getStoredWrappedTokens w;
            updatedTokens = filter (\<lambda>token. event_id token \<noteq> tokenId) tokens
        in w1\<lparr>wrappedKey := Holds updatedTokens\<rparr>)"

section \<open>The client's unwrap method (RoutstrClient.unwrapCashuToken)\<close>

record unwrap_result = op_result +
  gift :: "GiftWrap option"

text \<open>
  The method's \<open>try\<close> block; none of the three functions it calls throws, so its \<open>catch\<close>
  block is not reached.
\<close>

definition RoutstrClient_unwrapCashuToken ::
  "nostr_tools \<Rightarrow> privkey \<Rightarrow> Event \<Rightarrow> world \<Rightarrow> unwrap_result \<times> world" where
  "RoutstrClient_unwrapCashuToken nt privateKey event w =
     (if \<not> isValidCashuGiftWrap event then
        (\<lparr>success = False, message = Some ''Invalid gift wrap event'', gift = None\<rparr>, w)
      else
        case unwrapCashuToken nt event privateKey w of
          (None, w1) \<Rightarrow>
            (\<lparr>success = False,
              message = Some ''Failed to unwrap token or token not intended for this recipient'',
              gift = None\<rparr>, w1)
        | (Some g, w1) \<Rightarrow>
            (\<lparr>success = True, message = Some ''Token unwrapped successfully'', gift = Some g\<rparr>,
             removeWrappedToken (event_id event) w1))"

section \<open>Concrete services and worlds used to exercise the theorems\<close>

definition proof_of :: "int \<Rightarrow> string \<Rightarrow> CashuProof" where
  "proof_of a s = \<lparr>amount = a, secret = s, C = ''02ab'', keyset_id = ''009a1f293253e41e''\<rparr>"

text \<open>
  A remote service that answers by bearer token, a mint that refuses a split beyond the
  funds offered and otherwise sends the first proof and that redeems by token, and a mint
  that is unreachable.
\<close>

definition demo_services :: services where
  "demo_services =
     \<lparr>wallet_get = (\<lambda>url bearer.
          if bearer = ''cashuAexhausted'' then Responds 402 (Inl ''Unexpected end of JSON input'')
          else if bearer = ''cashuAoffline'' then Rejects ''Failed to fetch''
          else if bearer = ''cashuAerror'' then Responds 500 (Inr 0)
          else Responds 200 (Inr 5000)),
      wallet_refund = (\<lambda>url bearer.
          if bearer = ''cashuAoffline'' then Rejects ''Failed to fetch''
          else if bearer = ''cashuAspent'' then Responds 200 (Inr None)
          else Responds 200 (Inr (Some ''cashuArefund''))),
      loadMint = (\<lambda>mintUrl. None),
      wallet_send = (\<lambda>mintUrl amt proofs.
          if of_int (sum_list (map amount proofs)) < amt then SendThrows ''Not enough funds available''
          else SendOk (take 1 proofs) (drop 1 proofs)),
      wallet_receive = (\<lambda>mintUrl token.
          if token = ''cashuAused'' then ReceiveThrows ''Token already spent''
          else if token = ''cashuApair'' then ReceiveArray [proof_of 1 ''r2'', proof_of 1 ''r3'']
          else ReceiveArray [proof_of 5 ''r1'']),
      btoa_json = (\<lambda>mintUrl send. Inr ''eyJ0b2tlbiI6W119''),
      number_toString = (\<lambda>n. case n of
          Finite i \<Rightarrow> (if i < 0 then CHR ''-'' # show_nat (nat (- i)) else show_nat (nat i))
        | NonFinite \<Rightarrow> ''Infinity'')\<rparr>"

definition offline_mint :: services where
  "offline_mint = demo_services\<lparr>wallet_send := (\<lambda>mintUrl amt proofs. SendThrows ''Network request failed'')\<rparr>"

definition world_with :: "CashuProof list slot \<Rightarrow> string option \<Rightarrow> world" where
  "world_with ps tok =
     \<lparr>hasLocalStorage = True, proofsKey = ps, tokenKey = tok, wrappedKey = Absent, trace = []\<rparr>"

text \<open>A failed remote call: \<open>fetch\<close> rejects, or the response is not \<open>ok\<close>.\<close>

definition network_failure :: "'a fetch_result \<Rightarrow> bool" where
  "network_failure r = (case r of Rejects err \<Rightarrow> True | Responds status body \<Rightarrow> \<not> response_ok status)"

text \<open>
  A stand-in for nostr-tools with three key pairs: the cipher text is the plain text
  behind a marker of the pair of parties, and the JSON functions know one gift with and
  without a note.
\<close>

definition alice_key :: privkey where
  "alice_key = [161]"

definition bob_key :: privkey where
  "bob_key = [176, 11]"

definition carol_key :: privkey where
  "carol_key = [202, 4, 1]"

definition toy_pub :: "privkey \<Rightarrow> string + string" where
  "toy_pub sk =
     (if sk = alice_key then Inr ''a11ce''
      else if sk = bob_key then Inr ''b0b''
      else if sk = carol_key then Inr ''ca401''
      else Inl ''invalid private key'')"

definition toy_shared :: "privkey \<Rightarrow> string \<Rightarrow> bool" where
  "toy_shared sk pk = ((sk = alice_key \<and> pk = ''b0b'') \<or> (sk = bob_key \<and> pk = ''a11ce''))"

definition toy_tools :: nostr_tools where
  "toy_tools =
     \<lparr>getPublicKey = toy_pub,
      nip04_encrypt = (\<lambda>sk pk text.
          if toy_shared sk pk then Inr (''ab?iv='' @ text) else Inr (''zz?iv='' @ text)),
      nip04_decrypt = (\<lambda>sk pk ct.
          if toy_shared sk pk \<and> take 6 ct = ''ab?iv='' then Inr (drop 6 ct)
          else Inl ''invalid padding''),
      getEventHash = (\<lambda>e. ''id-'' @ content e),
      finalizeEvent = (\<lambda>e sk.
          case toy_pub sk of
            Inl err \<Rightarrow> Inl err
          | Inr pk \<Rightarrow> Inr (e\<lparr>pubkey := pk, event_id := ''id-'' @ content e, sig := ''signed''\<rparr>)),
      JSON_stringify = (\<lambda>v.
          if v = gift_payload ''cashuAgift'' (Some ''hi'') then ''{token:cashuAgift,note:hi}''
          else if v = gift_payload ''cashuAgift'' None then ''{token:cashuAgift}''
          else ''null''),
      JSON_parse = (\<lambda>s.
          if s = ''{token:cashuAgift,note:hi}'' then Inr (gift_payload ''cashuAgift'' (Some ''hi''))
          else if s = ''{token:cashuAgift}'' then Inr (gift_payload ''cashuAgift'' None)
          else if s = ''null'' then Inr JNull
          else Inl ''Unexpected token'')\<rparr>"

text \<open>The event \<open>wrapCashuToken\<close> builds with these tools for a gift from Alice to Bob.\<close>

definition gift_event :: Event where
  "gift_event =
     \<lparr>kind = 1059, pubkey = ''a11ce'', created_at = 1700000000,
      tags = [ [''p'', ''b0b''], [''gift'', ''cashu''] ],
      content = ''ab?iv={token:cashuAgift,note:hi}'',
      event_id = ''id-ab?iv={token:cashuAgift,note:hi}'', sig = ''signed''\<rparr>"

text \<open>The same gift without a note.\<close>

definition plain_gift_event :: Event where
  "plain_gift_event =
     gift_event\<lparr>content := ''ab?iv={token:cashuAgift}'',
                 event_id := ''id-ab?iv={token:cashuAgift}''\<rparr>"

definition other_event :: Event where
  "other_event = gift_event\<lparr>content := ''zz?iv=null'', event_id := ''id-zz?iv=null''\<rparr>"

section \<open>Helper facts\<close>

lemma js_index_0_iff: "js_index t 0 = Some a \<longleftrightarrow> (\<exists>rest. t = a # rest)"
  by (cases t) auto

lemma js_index_1_iff: "js_index t (Suc 0) = Some b \<longleftrightarrow> (\<exists>a rest. t = a # b # rest)"
proof (cases t)
  case Nil
  then show ?thesis by simp
next
  case (Cons a u)
  then show ?thesis by (cases u) auto
qed

section \<open>Claims\<close>

text \<open>
  C8, as written: \<open>isValidCashuGiftWrap\<close> is true if and only if the kind is 1059, some
  tag starts with \<open>"p"\<close> and some tag equals \<open>["gift","cashu"]\<close>. The source compares only
  the first two elements of a tag, so a longer tag beginning \<open>"gift","cashu"\<close> is accepted
  although no tag equals \<open>["gift","cashu"]\<close>.
\<close>

theorem C8_counterexample:
  "isValidCashuGiftWrap
     \<lparr>kind = 1059, pubkey = ''a'', created_at = 0,
      tags = [ [''p'', ''b''], [''gift'', ''cashu'', ''x''] ],
      content = '''', event_id = '''', sig = ''''\<rparr>
   \<and> [''gift'', ''cashu''] \<notin> set [ [''p'', ''b''], [''gift'', ''cashu'', ''x''] ]"
  by (simp add: isValidCashuGiftWrap_def)

text \<open>
  C8, amended: \<open>isValidCashuGiftWrap\<close> is true if and only if the kind is 1059, some tag
  has first element \<open>"p"\<close> and some tag has first two elements \<open>"gift"\<close>, \<open>"cashu"\<close>; the
  result does not change when the ciphertext, signature, sender key, id or timestamp of
  the event are replaced by anything else.
\<close>

theorem C8_isValidCashuGiftWrap_structural:
  "(isValidCashuGiftWrap e \<longleftrightarrow>
      kind e = 1059
      \<and> (\<exists>t \<in> set (tags e). \<exists>rest. t = ''p'' # rest)
      \<and> (\<exists>t \<in> set (tags e). \<exists>rest. t = ''gift'' # ''cashu'' # rest))
   \<and> isValidCashuGiftWrap (e\<lparr>content := c, sig := s, pubkey := p, event_id := i, created_at := ts\<rparr>)
       = isValidCashuGiftWrap e"
proof -
  have p: "list_ex (\<lambda>tag. js_index tag 0 = Some ''p'') (tags e)
           \<longleftrightarrow> (\<exists>t \<in> set (tags e). \<exists>rest. t = ''p'' # rest)"
    by (simp add: list_ex_iff js_index_0_iff)
  have g: "list_ex (\<lambda>tag. js_index tag 0 = Some ''gift'' \<and> js_index tag 1 = Some ''cashu'') (tags e)
           \<longleftrightarrow> (\<exists>t \<in> set (tags e). \<exists>rest. t = ''gift'' # ''cashu'' # rest)"
    unfolding list_ex_iff
  proof (rule bex_cong [OF refl])
    fix t
    show "(js_index t 0 = Some ''gift'' \<and> js_index t 1 = Some ''cashu'')
          = (\<exists>rest. t = ''gift'' # ''cashu'' # rest)"
      using js_index_0_iff [of t "''gift''"] js_index_1_iff [of t "''cashu''"]
      by (simp only: One_nat_def) blast
  qed
  show ?thesis
    using p g by (auto simp: isValidCashuGiftWrap_def Let_def)
qed

theorem C8_isValidCashuGiftWrap_structural_witness:
  "isValidCashuGiftWrap
     \<lparr>kind = 1059, pubkey = ''a'', created_at = 0,
      tags = [ [''p'', ''b''], [''gift'', ''cashu''] ],
      content = ''not a ciphertext'', event_id = '''', sig = ''''\<rparr>"
  using C8_isValidCashuGiftWrap_structural
    [of "\<lparr>kind = 1059, pubkey = ''a'', created_at = 0,
          tags = [ [''p'', ''b''], [''gift'', ''cashu''] ],
          content = ''not a ciphertext'', event_id = '''', sig = ''''\<rparr>"]
  by simp

lemma bit_length_le: "n < 2 ^ k \<Longrightarrow> bit_length n \<le> k"
proof (induction k arbitrary: n)
  case 0
  then show ?case by (simp add: bit_length.simps)
next
  case (Suc k)
  show ?case
  proof (cases "n = 0")
    case True
    then show ?thesis by (simp add: bit_length.simps)
  next
    case False
    from Suc.prems have "n div 2 < 2 ^ k" by simp
    then have "bit_length (n div 2) \<le> k" by (rule Suc.IH)
    with False show ?thesis by (subst bit_length.simps) simp
  qed
qed

lemma bit_length_pow2: "bit_length (2 ^ k) = Suc k"
proof (induction k)
  case 0
  show ?case by (simp add: bit_length.simps [of "Suc 0"] bit_length.simps [of 0])
next
  case (Suc k)
  then show ?case by (subst bit_length.simps) simp
qed

lemma round_to_double_safe: "n \<le> 2 ^ 53 \<Longrightarrow> round_to_double n = n"
proof (cases "n < 2 ^ 53")
  case True
  then have "bit_length n \<le> 53" by (rule bit_length_le)
  then show ?thesis by (simp add: round_to_double_def)
next
  case False
  assume "n \<le> 2 ^ 53"
  with False have n: "n = 2 ^ 53" by simp
  have bl: "bit_length (2 ^ 53) = Suc 53" by (rule bit_length_pow2)
  show ?thesis
    unfolding n round_to_double_def bl Let_def by simp
qed

text \<open>Integers up to \<open>2 ^ 53\<close> in magnitude are numbers themselves, and add exactly.\<close>

lemma js_number_safe: "\<bar>i\<bar> \<le> 2 ^ 53 \<Longrightarrow> js_number i = Finite i"
proof -
  assume a: "\<bar>i\<bar> \<le> 2 ^ 53"
  then have "nat \<bar>i\<bar> \<le> 2 ^ 53" by simp
  then have r: "round_to_double (nat \<bar>i\<bar>) = nat \<bar>i\<bar>" by (rule round_to_double_safe)
  have "(2::nat) ^ 53 < 2 ^ 1024" by simp
  with \<open>nat \<bar>i\<bar> \<le> 2 ^ 53\<close> have "\<not> (2::nat) ^ 1024 \<le> nat \<bar>i\<bar>" by linarith
  moreover have "sgn i * int (nat \<bar>i\<bar>) = i" by (simp add: sgn_if)
  ultimately show ?thesis by (simp add: js_number_def r)
qed

lemma foldl_amounts_safe:
  assumes "\<forall>p \<in> set ps. 0 \<le> amount p" and "0 \<le> a" and "a + sum_list (map amount ps) \<le> 2 ^ 53"
  shows "foldl (\<lambda>total proof. js_add total (js_number (amount proof))) (Finite a) ps
           = Finite (a + sum_list (map amount ps))"
  using assms
proof (induction ps arbitrary: a)
  case Nil
  then show ?case by simp
next
  case (Cons p ps)
  have nn: "0 \<le> amount p" "0 \<le> sum_list (map amount ps)"
    using Cons.prems(1) by (auto intro!: sum_list_nonneg)
  have tot: "a + (amount p + sum_list (map amount ps)) \<le> 2 ^ 53"
    using Cons.prems(3) by simp
  have b: "\<bar>amount p\<bar> \<le> 2 ^ 53" "\<bar>a + amount p\<bar> \<le> 2 ^ 53"
    using tot nn Cons.prems(2) by linarith+
  have step: "js_add (Finite a) (js_number (amount p)) = Finite (a + amount p)"
    using b by (simp add: js_number_safe)
  have "foldl (\<lambda>total proof. js_add total (js_number (amount proof))) (Finite (a + amount p)) ps
          = Finite (a + amount p + sum_list (map amount ps))"
    using Cons.prems(1,2) nn tot by (intro Cons.IH) (simp_all add: add.assoc)
  then show ?case by (simp add: step add.assoc)
qed

lemma sum_amounts_safe:
  "\<forall>p \<in> set ps. 0 \<le> amount p \<Longrightarrow> sum_list (map amount ps) \<le> 2 ^ 53
     \<Longrightarrow> sum_amounts ps = Finite (sum_list (map amount ps))"
  using foldl_amounts_safe [of ps 0] by (simp add: sum_amounts_def)

lemma bit_length_eq: "2 ^ k \<le> n \<Longrightarrow> n < 2 ^ Suc k \<Longrightarrow> bit_length n = Suc k"
proof (induction k arbitrary: n)
  case 0
  then have "n = Suc 0" by simp
  then show ?case by (simp add: bit_length.simps [of "Suc 0"] bit_length.simps [of 0])
next
  case (Suc k)
  then have "2 ^ k \<le> n div 2" "n div 2 < 2 ^ Suc k" "n \<noteq> 0" by auto
  then have "bit_length (n div 2) = Suc k" "n \<noteq> 0" using Suc.IH by auto
  then show ?case by (subst bit_length.simps) simp
qed

text \<open>Between \<open>2 ^ 53\<close> and \<open>2 ^ 54\<close> the doubles are the even integers.\<close>

lemma round_to_double_54:
  assumes "2 ^ 53 \<le> n" and "n < 2 ^ 54"
  shows "round_to_double n = (if n mod 2 = 1 \<and> odd (n div 2) then n div 2 + 1 else n div 2) * 2"
proof -
  have "bit_length n = Suc 53" using assms by (intro bit_length_eq) simp_all
  then show ?thesis by (simp add: round_to_double_def Let_def)
qed

text \<open>Beyond \<open>2 ^ 53\<close> the sum is rounded at every step: adding 1 twice changes nothing.\<close>

lemma sum_amounts_rounds:
  "sum_amounts [proof_of 9007199254740992 ''s0'', proof_of 1 ''r2'', proof_of 1 ''r3'']
     = Finite 9007199254740992
   \<and> sum_amounts [proof_of 9007199254740992 ''s0'', proof_of 2 ''r2''] = Finite 9007199254740994
   \<and> sum_amounts [proof_of 9007199254740994 ''s0'', proof_of 1 ''r2''] = Finite 9007199254740996"
proof -
  have small: "js_number 9007199254740992 = Finite 9007199254740992" "js_number 1 = Finite 1"
              "js_number 2 = Finite 2"
    by (simp_all add: js_number_safe)
  have r: "round_to_double 9007199254740993 = 9007199254740992"
          "round_to_double 9007199254740994 = 9007199254740994"
          "round_to_double 9007199254740995 = 9007199254740996"
    by (simp_all add: round_to_double_54)
  have big: "js_number 9007199254740993 = Finite 9007199254740992"
            "js_number 9007199254740994 = Finite 9007199254740994"
            "js_number 9007199254740995 = Finite 9007199254740996"
    by (simp_all add: js_number_def r)
  show ?thesis by (simp add: sum_amounts_def proof_of_def small big)
qed

lemma emit_simps [simp]:
  "hasLocalStorage (emit ev w) = hasLocalStorage w"
  "proofsKey (emit ev w) = proofsKey w"
  "tokenKey (emit ev w) = tokenKey w"
  "wrappedKey (emit ev w) = wrappedKey w"
  "trace (emit ev w) = trace w @ [ev]"
  by (simp_all add: emit_def)

lemma receive_proofs_frame:
  "receive_proofs sv mintUrl tok w = (r, w') \<Longrightarrow>
     hasLocalStorage w' = hasLocalStorage w \<and> proofsKey w' = proofsKey w
     \<and> tokenKey w' = tokenKey w \<and> wrappedKey w' = wrappedKey w"
  by (auto simp: receive_proofs_def Let_def split: option.splits receive_result.splits)

lemma importToken_received:
  assumes "hasLocalStorage w" and "loadMint sv mintUrl = None"
      and "proofsKey w = Holds P \<or> proofsKey w = Absent \<and> P = []"
      and "wallet_receive sv mintUrl tok = ReceiveArray Q" and "Q \<noteq> []"
  shows "success (fst (importToken sv tok mintUrl w))"
    and "imported (fst (importToken sv tok mintUrl w)) = Some (sum_amounts Q)"
    and "proofsKey (snd (importToken sv tok mintUrl w)) = Holds (P @ Q)"
    and "hasLocalStorage (snd (importToken sv tok mintUrl w))"
  using assms
  by (auto simp: importToken_def receive_proofs_def append_proofs_def Let_def)

text \<open>
  C9, as written: for every stored \<open>P\<close> and received \<open>Q\<close> the stored sum grows by the sum
  of \<open>Q\<close>. The sums are JavaScript numbers: with \<open>2 ^ 53\<close> stored and two proofs of 1
  received, the import succeeds and the store holds all three proofs, yet the stored
  sum is \<open>2 ^ 53\<close> before and after, while 2 is reported as imported.
\<close>

theorem C9_counterexample:
  "success (fst (importToken demo_services ''cashuApair'' ''https://mint''
       (world_with (Holds [proof_of 9007199254740992 ''s0'']) None)))
   \<and> proofsKey (snd (importToken demo_services ''cashuApair'' ''https://mint''
       (world_with (Holds [proof_of 9007199254740992 ''s0'']) None)))
       = Holds [proof_of 9007199254740992 ''s0'', proof_of 1 ''r2'', proof_of 1 ''r3'']
   \<and> imported (fst (importToken demo_services ''cashuApair'' ''https://mint''
       (world_with (Holds [proof_of 9007199254740992 ''s0'']) None))) = Some (Finite 2)
   \<and> fst (getBalanceFromStoredProofs (world_with (Holds [proof_of 9007199254740992 ''s0'']) None))
       = Finite 9007199254740992
   \<and> fst (getBalanceFromStoredProofs (snd (importToken demo_services ''cashuApair'' ''https://mint''
       (world_with (Holds [proof_of 9007199254740992 ''s0'']) None))))
       = Finite 9007199254740992"
proof -
  let ?w = "world_with (Holds [proof_of 9007199254740992 ''s0'']) None"
  have h: "hasLocalStorage ?w" "loadMint demo_services ''https://mint'' = None"
          "proofsKey ?w = Holds [proof_of 9007199254740992 ''s0''] \<or>
           proofsKey ?w = Absent \<and> [proof_of 9007199254740992 ''s0''] = []"
          "wallet_receive demo_services ''https://mint'' ''cashuApair''
             = ReceiveArray [proof_of 1 ''r2'', proof_of 1 ''r3'']"
          "[proof_of 1 ''r2'', proof_of 1 ''r3''] \<noteq> []"
    by (simp_all add: world_with_def demo_services_def)
  note r = importToken_received [OF h]
  have two: "sum_amounts [proof_of 1 ''r2'', proof_of 1 ''r3''] = Finite 2"
    by (simp add: sum_amounts_safe proof_of_def)
  have one: "sum_amounts [proof_of 9007199254740992 ''s0''] = Finite 9007199254740992"
    by (simp add: sum_amounts_safe proof_of_def)
  have before: "fst (getBalanceFromStoredProofs ?w) = Finite 9007199254740992"
    by (simp add: getBalanceFromStoredProofs_def world_with_def one)
  have after: "fst (getBalanceFromStoredProofs (snd (importToken demo_services ''cashuApair''
                 ''https://mint'' ?w))) = Finite 9007199254740992"
    using r(3,4) sum_amounts_rounds by (simp add: getBalanceFromStoredProofs_def)
  from r(1) r(2) r(3) two before after show ?thesis by simp
qed

text \<open>
  C9, amended: with stored proofs \<open>P\<close> (\<open>[]\<close> when nothing is stored yet) and a token for
  which the mint returns the proofs \<open>Q\<close>, \<open>importToken\<close> succeeds and leaves the store
  holding \<open>P\<close> followed by \<open>Q\<close>; when the amounts are not negative and their total over \<open>P\<close>
  and \<open>Q\<close> is at most \<open>2 ^ 53\<close>, the stored sum grows by the sum of \<open>Q\<close>, which is the
  amount reported. When the mint throws "already spent", the result is
  \<open>{ success: false }\<close> and the stored proofs are unchanged. (The source appends without
  looking at secrets, so no condition on them is needed.)
\<close>

theorem C9_importToken_appends:
  assumes "hasLocalStorage w" and "loadMint sv mintUrl = None"
  shows "((proofsKey w = Holds P \<or> proofsKey w = Absent \<and> P = [])
          \<and> wallet_receive sv mintUrl tok = ReceiveArray Q \<and> Q \<noteq> [] \<longrightarrow>
            success (fst (importToken sv tok mintUrl w))
          \<and> proofsKey (snd (importToken sv tok mintUrl w)) = Holds (P @ Q)
          \<and> ((\<forall>p \<in> set (P @ Q). 0 \<le> amount p) \<and> sum_list (map amount (P @ Q)) \<le> 2 ^ 53 \<longrightarrow>
                imported (fst (importToken sv tok mintUrl w)) = Some (Finite (sum_list (map amount Q)))
              \<and> fst (getBalanceFromStoredProofs w) = Finite (sum_list (map amount P))
              \<and> fst (getBalanceFromStoredProofs (snd (importToken sv tok mintUrl w)))
                  = Finite (sum_list (map amount P) + sum_list (map amount Q))))
       \<and> (wallet_receive sv mintUrl tok = ReceiveThrows err \<and> str_includes err ''already spent'' \<longrightarrow>
            \<not> success (fst (importToken sv tok mintUrl w))
          \<and> message (fst (importToken sv tok mintUrl w)) = Some ''This token has already been spent''
          \<and> proofsKey (snd (importToken sv tok mintUrl w)) = proofsKey w)"
proof (intro conjI impI)
  assume a: "(proofsKey w = Holds P \<or> proofsKey w = Absent \<and> P = [])
          \<and> wallet_receive sv mintUrl tok = ReceiveArray Q \<and> Q \<noteq> []"
  then have st: "proofsKey w = Holds P \<or> proofsKey w = Absent \<and> P = []"
    and rc: "wallet_receive sv mintUrl tok = ReceiveArray Q" and ne: "Q \<noteq> []"
    by blast+
  note r = importToken_received [OF assms st rc ne]
  show "success (fst (importToken sv tok mintUrl w))" by (rule r(1))
  show "proofsKey (snd (importToken sv tok mintUrl w)) = Holds (P @ Q)" by (rule r(3))
  assume b: "(\<forall>p \<in> set (P @ Q). 0 \<le> amount p) \<and> sum_list (map amount (P @ Q)) \<le> 2 ^ 53"
  then have nn: "\<forall>p \<in> set P. 0 \<le> amount p" "\<forall>p \<in> set Q. 0 \<le> amount p"
    and tot: "sum_list (map amount P) + sum_list (map amount Q) \<le> 2 ^ 53"
    by auto
  have pos: "0 \<le> sum_list (map amount P)" "0 \<le> sum_list (map amount Q)"
    using nn by (auto intro!: sum_list_nonneg)
  have sP: "sum_amounts P = Finite (sum_list (map amount P))"
    using nn(1) tot pos by (intro sum_amounts_safe) auto
  have sQ: "sum_amounts Q = Finite (sum_list (map amount Q))"
    using nn(2) tot pos by (intro sum_amounts_safe) auto
  have sPQ: "sum_amounts (P @ Q) = Finite (sum_list (map amount P) + sum_list (map amount Q))"
    using sum_amounts_safe [of "P @ Q"] b by simp
  show "imported (fst (importToken sv tok mintUrl w)) = Some (Finite (sum_list (map amount Q)))"
    by (simp add: r(2) sQ)
  show "fst (getBalanceFromStoredProofs w) = Finite (sum_list (map amount P))"
    using st assms(1) sP by (auto simp: getBalanceFromStoredProofs_def)
  show "fst (getBalanceFromStoredProofs (snd (importToken sv tok mintUrl w)))
          = Finite (sum_list (map amount P) + sum_list (map amount Q))"
    using r(3,4) sPQ by (simp add: getBalanceFromStoredProofs_def)
next
  assume a: "wallet_receive sv mintUrl tok = ReceiveThrows err \<and> str_includes err ''already spent''"
  with assms show "\<not> success (fst (importToken sv tok mintUrl w))"
    by (simp add: importToken_def receive_proofs_def Let_def)
  from a assms show "message (fst (importToken sv tok mintUrl w)) = Some ''This token has already been spent''"
    by (simp add: importToken_def receive_proofs_def Let_def)
  from a assms show "proofsKey (snd (importToken sv tok mintUrl w)) = proofsKey w"
    by (simp add: importToken_def receive_proofs_def Let_def)
qed

theorem C9_importToken_appends_witness:
  "proofsKey (snd (importToken demo_services ''cashuAfresh'' ''https://mint'' (world_with (Holds [proof_of 100 ''s1'']) None)))
     = Holds [proof_of 100 ''s1'', proof_of 5 ''r1'']
   \<and> fst (getBalanceFromStoredProofs (world_with (Holds [proof_of 100 ''s1'']) None)) = Finite 100
   \<and> fst (getBalanceFromStoredProofs (snd (importToken demo_services ''cashuAfresh'' ''https://mint''
        (world_with (Holds [proof_of 100 ''s1'']) None)))) = Finite 105
   \<and> \<not> success (fst (importToken demo_services ''cashuAused'' ''https://mint'' (world_with (Holds [proof_of 100 ''s1'']) None)))
   \<and> proofsKey (snd (importToken demo_services ''cashuAused'' ''https://mint'' (world_with (Holds [proof_of 100 ''s1'']) None)))
     = Holds [proof_of 100 ''s1'']"
proof -
  let ?w = "world_with (Holds [proof_of 100 ''s1'']) None"
  have h: "hasLocalStorage ?w" "loadMint demo_services ''https://mint'' = None"
    by (simp_all add: world_with_def demo_services_def)
  have a: "proofsKey ?w = Holds [proof_of 100 ''s1'']"
          "wallet_receive demo_services ''https://mint'' ''cashuAfresh'' = ReceiveArray [proof_of 5 ''r1'']"
          "[proof_of 5 ''r1''] \<noteq> []"
    by (simp_all add: world_with_def demo_services_def)
  have safe: "\<forall>p \<in> set ([proof_of 100 ''s1''] @ [proof_of 5 ''r1'']). 0 \<le> amount p"
             "sum_list (map amount ([proof_of 100 ''s1''] @ [proof_of 5 ''r1''])) \<le> 2 ^ 53"
             "sum_list (map amount [proof_of 100 ''s1'']) = 100"
             "sum_list (map amount [proof_of 5 ''r1'']) = 5"
    by (simp_all add: proof_of_def)
  have b: "wallet_receive demo_services ''https://mint'' ''cashuAused'' = ReceiveThrows ''Token already spent''"
          "str_includes ''Token already spent'' ''already spent''"
    by (simp_all add: demo_services_def)
  from C9_importToken_appends [OF h, of "[proof_of 100 ''s1'']" "''cashuAfresh''" "[proof_of 5 ''r1'']"]
       C9_importToken_appends [OF h, of _ "''cashuAused''" _ "''Token already spent''"] a safe b
  show ?thesis by simp
qed

lemma refund_finish_clears:
  "hasLocalStorage w \<Longrightarrow> tokenKey (snd (refund_finish w)) = None"
  by (simp add: refund_finish_def invalidateApiToken_def)

lemma refund_catch_fails: "\<not> success (fst (refund_catch err w))"
  by (simp add: refund_catch_def)

lemma append_proofs_frame:
  "append_proofs ps w = Inr w' \<Longrightarrow> hasLocalStorage w' = hasLocalStorage w \<and> tokenKey w' = tokenKey w"
  by (auto simp: append_proofs_def split: slot.splits)

lemma receive_proofs_storage:
  "receive_proofs sv mintUrl tok w = (r, w') \<Longrightarrow> hasLocalStorage w' = hasLocalStorage w"
  by (simp add: receive_proofs_frame)

lemma append_proofs_storage:
  "append_proofs ps w = Inr w' \<Longrightarrow> hasLocalStorage w' = hasLocalStorage w"
  by (simp add: append_proofs_frame)

lemma receive_proofs_trace:
  "receive_proofs sv mintUrl tok w = (r, w') \<Longrightarrow> set (trace w) \<subseteq> set (trace w')"
  by (auto simp: receive_proofs_def Let_def split: option.splits receive_result.splits)

lemma append_proofs_trace: "append_proofs ps w = Inr w' \<Longrightarrow> trace w' = trace w"
  by (auto simp: append_proofs_def split: slot.splits)

text \<open>
  Every run of \<open>refundRemainingBalance\<close> that reaches the refund request ends in its
  \<open>catch\<close> block or in its last two statements, in a world that still has
  \<open>localStorage\<close> and whose trace contains the request.
\<close>

lemma refund_outcome_rule:
  assumes "hasLocalStorage w" and st: "js_or token (tokenKey w) = Some st" "st \<noteq> []"
      and ne: "baseUrl \<noteq> []"
      and url: "url = (if endsWith baseUrl ''/'' then baseUrl else baseUrl @ ''/'') @ ''v1/wallet/refund''"
      and catch: "\<And>err w''. hasLocalStorage w'' \<Longrightarrow> FetchRefund url st \<in> set (trace w'')
                    \<Longrightarrow> P (refund_catch err w'')"
      and finish: "\<And>w''. hasLocalStorage w'' \<Longrightarrow> FetchRefund url st \<in> set (trace w'')
                    \<Longrightarrow> P (refund_finish w'')"
  shows "P (refundRemainingBalance sv mintUrl baseUrl token w)"
proof -
  define w1 where "w1 = emit (FetchRefund url st) w"
  have s1: "hasLocalStorage w1" "FetchRefund url st \<in> set (trace w1)"
    using assms(1) by (simp_all add: w1_def)
  have unf: "refundRemainingBalance sv mintUrl baseUrl token w =
     (case wallet_refund sv url st of
        Rejects err \<Rightarrow> refund_catch err w1
      | Responds status body \<Rightarrow>
          if \<not> response_ok status then
            refund_catch (''Refund request failed with status '' @ show_nat status) w1
          else
            case body of
              Inl err \<Rightarrow> refund_catch err w1
            | Inr None \<Rightarrow> refund_finish w1
            | Inr (Some data_token) \<Rightarrow>
                if data_token = [] then refund_finish w1
                else
                  case receive_proofs sv mintUrl data_token w1 of
                    (Inl err, w2) \<Rightarrow> refund_catch err w2
                  | (Inr proofs, w2) \<Rightarrow>
                      if proofs \<noteq> [] then
                        (case append_proofs proofs w2 of
                           Inl err \<Rightarrow> refund_catch err w2
                         | Inr w3 \<Rightarrow> refund_finish w3)
                      else refund_finish w2)"
    unfolding refundRemainingBalance_def Let_def url w1_def
    using assms(1) st ne by simp
  show ?thesis
  proof (cases "wallet_refund sv url st")
    case (Rejects err)
    with unf catch [OF s1] show ?thesis by simp
  next
    case (Responds status body)
    show ?thesis
    proof (cases "response_ok status")
      case False
      with unf Responds catch [OF s1] show ?thesis by simp
    next
      case ok: True
      show ?thesis
      proof (cases body)
        case (Inl err)
        with unf Responds ok catch [OF s1] show ?thesis by simp
      next
        case (Inr data)
        show ?thesis
        proof (cases "truthy data")
          case False
          then have "refundRemainingBalance sv mintUrl baseUrl token w = refund_finish w1"
            using unf Responds ok Inr by (cases data) auto
          with finish [OF s1] show ?thesis by simp
        next
          case True
          then obtain dt where dt: "data = Some dt" "dt \<noteq> []" by (cases data) auto
          obtain res w2 where rp: "receive_proofs sv mintUrl dt w1 = (res, w2)"
            by (cases "receive_proofs sv mintUrl dt w1") auto
          then have s2: "hasLocalStorage w2" "FetchRefund url st \<in> set (trace w2)"
            using s1 receive_proofs_storage [OF rp] receive_proofs_trace [OF rp] by auto
          show ?thesis
          proof (cases res)
            case (Inl err)
            with unf Responds ok Inr dt rp catch [OF s2] show ?thesis by simp
          next
            case ps: (Inr proofs)
            show ?thesis
            proof (cases "proofs = []")
              case True
              with unf Responds ok Inr dt rp ps
              have "refundRemainingBalance sv mintUrl baseUrl token w = refund_finish w2" by simp
              with finish [OF s2] show ?thesis by simp
            next
              case nonempty: False
              show ?thesis
              proof (cases "append_proofs proofs w2")
                case (Inl err)
                with unf Responds ok Inr dt rp ps nonempty catch [OF s2] show ?thesis by simp
              next
                case w3: (Inr w3)
                then have s3: "hasLocalStorage w3" "FetchRefund url st \<in> set (trace w3)"
                  using s2 append_proofs_storage [OF w3] append_proofs_trace [OF w3] by auto
                from unf Responds ok Inr dt rp ps nonempty w3
                have "refundRemainingBalance sv mintUrl baseUrl token w = refund_finish w3" by simp
                with finish [OF s3] show ?thesis by simp
              qed
            qed
          qed
        qed
      qed
    qed
  qed
qed

lemma refund_success_clears:
  assumes "hasLocalStorage w" and "truthy (js_or token (tokenKey w))"
  shows "\<not> success (fst (refundRemainingBalance sv mintUrl baseUrl token w))
         \<or> tokenKey (snd (refundRemainingBalance sv mintUrl baseUrl token w)) = None"
proof -
  obtain st where st: "js_or token (tokenKey w) = Some st" "st \<noteq> []"
    using assms(2) by (cases "js_or token (tokenKey w)") auto
  show ?thesis
  proof (cases "baseUrl = []")
    case True
    with assms(1) st show ?thesis by (simp add: refundRemainingBalance_def)
  next
    case False
    show ?thesis
      by (rule refund_outcome_rule [OF assms(1) st False refl])
         (simp_all add: refund_catch_fails refund_finish_clears)
  qed
qed

lemma refund_trace_grows:
  assumes "hasLocalStorage w" and "tokenKey w = Some t" and "t \<noteq> []" and "baseUrl \<noteq> []"
  shows "FetchRefund ((if endsWith baseUrl ''/'' then baseUrl else baseUrl @ ''/'') @ ''v1/wallet/refund'') t
           \<in> set (trace (snd (refundRemainingBalance sv mintUrl baseUrl None w)))"
proof -
  have j: "js_or None (tokenKey w) = Some t" using assms(2) by (simp add: js_or_def)
  show ?thesis
    by (rule refund_outcome_rule [OF assms(1) j assms(3,4) refl])
       (simp_all add: refund_catch_def refund_finish_def invalidateApiToken_def)
qed

text \<open>
  C6, as written: refund is a no-op success when no current token is cached. Where
  \<open>localStorage\<close> does not exist nothing is cached, and the source returns
  \<open>{ success: false, message: 'LocalStorage not available' }\<close>.
\<close>

theorem C6_counterexample:
  "refundRemainingBalance demo_services ''https://mint'' ''https://api/'' None
      \<lparr>hasLocalStorage = False, proofsKey = Absent, tokenKey = None, wrappedKey = Absent, trace = []\<rparr>
     = (\<lparr>success = False, message = Some ''LocalStorage not available''\<rparr>,
        \<lparr>hasLocalStorage = False, proofsKey = Absent, tokenKey = None, wrappedKey = Absent,
         trace = []\<rparr>)"
  by (simp add: refundRemainingBalance_def)

text \<open>
  C6, amended: without \<open>localStorage\<close>, \<open>refundRemainingBalance\<close> returns
  \<open>{ success: false }\<close> and does nothing. With \<open>localStorage\<close>, called without a token
  argument (or with an empty one) while no current token is stored, it returns success
  and changes nothing. When the refund request fails on the network (the fetch rejects
  or the response is not ok), whichever token was sent, it returns \<open>{ success: false }\<close>
  and the current token and the stored proofs are as before. Whenever it returns
  success with a current token stored, the current token is cleared afterwards, whether
  or not the service returned a remainder.
\<close>

theorem C6_refundRemainingBalance:
  "(\<not> hasLocalStorage w \<longrightarrow>
      refundRemainingBalance sv mintUrl baseUrl token w
        = (\<lparr>success = False, message = Some ''LocalStorage not available''\<rparr>, w))
   \<and> (hasLocalStorage w \<and> \<not> truthy token \<and> \<not> truthy (tokenKey w) \<longrightarrow>
        refundRemainingBalance sv mintUrl baseUrl token w
          = (\<lparr>success = True, message = Some ''No token to refund''\<rparr>, w))
   \<and> (js_or token (tokenKey w) = Some t \<and> t \<noteq> [] \<and> baseUrl \<noteq> [] \<and>
      network_failure (wallet_refund sv
         ((if endsWith baseUrl ''/'' then baseUrl else baseUrl @ ''/'') @ ''v1/wallet/refund'') t) \<longrightarrow>
        \<not> success (fst (refundRemainingBalance sv mintUrl baseUrl token w))
      \<and> tokenKey (snd (refundRemainingBalance sv mintUrl baseUrl token w)) = tokenKey w
      \<and> proofsKey (snd (refundRemainingBalance sv mintUrl baseUrl token w)) = proofsKey w)
   \<and> (truthy (tokenKey w) \<and> success (fst (refundRemainingBalance sv mintUrl baseUrl token w)) \<longrightarrow>
        tokenKey (snd (refundRemainingBalance sv mintUrl baseUrl token w)) = None)"
proof (intro conjI impI)
  assume "\<not> hasLocalStorage w"
  then show "refundRemainingBalance sv mintUrl baseUrl token w
               = (\<lparr>success = False, message = Some ''LocalStorage not available''\<rparr>, w)"
    by (simp add: refundRemainingBalance_def)
next
  assume "hasLocalStorage w \<and> \<not> truthy token \<and> \<not> truthy (tokenKey w)"
  then show "refundRemainingBalance sv mintUrl baseUrl token w
              = (\<lparr>success = True, message = Some ''No token to refund''\<rparr>, w)"
    by (cases "tokenKey w") (auto simp: refundRemainingBalance_def js_or_def)
next
  assume a: "js_or token (tokenKey w) = Some t \<and> t \<noteq> [] \<and> baseUrl \<noteq> [] \<and>
          network_failure (wallet_refund sv
             ((if endsWith baseUrl ''/'' then baseUrl else baseUrl @ ''/'') @ ''v1/wallet/refund'') t)"
  then show "\<not> success (fst (refundRemainingBalance sv mintUrl baseUrl token w))"
    by (auto simp: refundRemainingBalance_def Let_def network_failure_def refund_catch_def
          split: fetch_result.splits)
  from a show "tokenKey (snd (refundRemainingBalance sv mintUrl baseUrl token w)) = tokenKey w"
    by (auto simp: refundRemainingBalance_def Let_def network_failure_def refund_catch_def
          split: fetch_result.splits)
  from a show "proofsKey (snd (refundRemainingBalance sv mintUrl baseUrl token w)) = proofsKey w"
    by (auto simp: refundRemainingBalance_def Let_def network_failure_def refund_catch_def
          split: fetch_result.splits)
next
  assume a: "truthy (tokenKey w) \<and> success (fst (refundRemainingBalance sv mintUrl baseUrl token w))"
  then have j: "truthy (js_or token (tokenKey w))" by (simp add: js_or_def)
  have s: "hasLocalStorage w"
  proof (rule ccontr)
    assume "\<not> hasLocalStorage w"
    then have "\<not> success (fst (refundRemainingBalance sv mintUrl baseUrl token w))"
      by (simp add: refundRemainingBalance_def)
    with a show False by simp
  qed
  from a refund_success_clears [OF s j, of sv mintUrl baseUrl]
  show "tokenKey (snd (refundRemainingBalance sv mintUrl baseUrl token w)) = None"
    by blast
qed

theorem C6_refundRemainingBalance_witness:
  "refundRemainingBalance demo_services ''https://mint'' ''https://api'' None (world_with (Holds []) None)
     = (\<lparr>success = True, message = Some ''No token to refund''\<rparr>, world_with (Holds []) None)
   \<and> \<not> success (fst (refundRemainingBalance demo_services ''https://mint'' ''https://api'' None
         (world_with (Holds []) (Some ''cashuAoffline''))))
   \<and> tokenKey (snd (refundRemainingBalance demo_services ''https://mint'' ''https://api'' None
         (world_with (Holds []) (Some ''cashuAoffline'')))) = Some ''cashuAoffline''
   \<and> success (fst (refundRemainingBalance demo_services ''https://mint'' ''https://api'' None
         (world_with (Holds []) (Some ''cashuAspent''))))
   \<and> tokenKey (snd (refundRemainingBalance demo_services ''https://mint'' ''https://api'' None
         (world_with (Holds []) (Some ''cashuAspent'')))) = None
   \<and> \<not> success (fst (refundRemainingBalance demo_services ''https://mint'' ''https://api'' None
         ((world_with Absent None)\<lparr>hasLocalStorage := False\<rparr>)))"
proof -
  have s: "success (fst (refundRemainingBalance demo_services ''https://mint'' ''https://api'' None
         (world_with (Holds []) (Some ''cashuAspent''))))"
    by (simp add: refundRemainingBalance_def world_with_def demo_services_def js_or_def endsWith_def
          Let_def emit_def response_ok_def refund_finish_def)
  have n: "network_failure (wallet_refund demo_services
             ((if endsWith ''https://api'' ''/'' then ''https://api'' else ''https://api'' @ ''/'')
               @ ''v1/wallet/refund'') ''cashuAoffline'')"
    by (simp add: network_failure_def demo_services_def)
  have j: "js_or None (tokenKey (world_with (Holds []) (Some ''cashuAoffline''))) = Some ''cashuAoffline''"
    by (simp add: js_or_def world_with_def)
  from C6_refundRemainingBalance [where w = "world_with (Holds []) None" and token = None
         and sv = demo_services and mintUrl = "''https://mint''" and baseUrl = "''https://api''"]
       C6_refundRemainingBalance [where w = "world_with (Holds []) (Some ''cashuAoffline'')"
         and token = None and sv = demo_services and mintUrl = "''https://mint''"
         and baseUrl = "''https://api''" and t = "''cashuAoffline''"]
       C6_refundRemainingBalance [where w = "world_with (Holds []) (Some ''cashuAspent'')"
         and token = None and sv = demo_services and mintUrl = "''https://mint''"
         and baseUrl = "''https://api''"]
       C6_refundRemainingBalance [where w = "(world_with Absent None)\<lparr>hasLocalStorage := False\<rparr>"
         and token = None and sv = demo_services and mintUrl = "''https://mint''"
         and baseUrl = "''https://api''"]
       s n j
  show ?thesis by (simp add: world_with_def)
qed

text \<open>
  C3: while a current token is stored, \<open>getOrCreateApiToken\<close> called twice in a row, with
  any amounts, returns that same token both times and leaves the world as it was: no
  mint call or other effect is added to the trace, and the stored proofs and their
  balance are unchanged.
\<close>

theorem C3_getOrCreateApiToken_cached:
  assumes "hasLocalStorage w" and "tokenKey w = Some t" and "t \<noteq> []"
  shows "getOrCreateApiToken sv mintUrl a1 w = (Token t, w)
       \<and> getOrCreateApiToken sv mintUrl a2 (snd (getOrCreateApiToken sv mintUrl a1 w)) = (Token t, w)
       \<and> trace (snd (getOrCreateApiToken sv mintUrl a2 (snd (getOrCreateApiToken sv mintUrl a1 w))))
           = trace w
       \<and> proofsKey (snd (getOrCreateApiToken sv mintUrl a2 (snd (getOrCreateApiToken sv mintUrl a1 w))))
           = proofsKey w
       \<and> fst (getBalanceFromStoredProofs
                (snd (getOrCreateApiToken sv mintUrl a2 (snd (getOrCreateApiToken sv mintUrl a1 w)))))
           = fst (getBalanceFromStoredProofs w)"
proof -
  have one: "getOrCreateApiToken sv mintUrl a w = (Token t, w)" for a
    using assms by (cases t) (simp_all add: getOrCreateApiToken_def)
  show ?thesis by (simp add: one)
qed

theorem C3_getOrCreateApiToken_cached_witness:
  "getOrCreateApiToken demo_services ''https://mint'' (Some 30)
     (world_with (Holds [proof_of 70 ''s2'']) (Some ''cashuAlive''))
     = (Token ''cashuAlive'', world_with (Holds [proof_of 70 ''s2'']) (Some ''cashuAlive''))
   \<and> getOrCreateApiToken demo_services ''https://mint'' None
       (snd (getOrCreateApiToken demo_services ''https://mint'' (Some 30)
          (world_with (Holds [proof_of 70 ''s2'']) (Some ''cashuAlive''))))
     = (Token ''cashuAlive'', world_with (Holds [proof_of 70 ''s2'']) (Some ''cashuAlive''))"
proof -
  let ?w = "world_with (Holds [proof_of 70 ''s2'']) (Some ''cashuAlive'')"
  have h: "hasLocalStorage ?w" "tokenKey ?w = Some ''cashuAlive''" "''cashuAlive'' \<noteq> []"
    by (simp_all add: world_with_def)
  from C3_getOrCreateApiToken_cached [OF h, of demo_services "''https://mint''" "Some 30" None]
  show ?thesis by blast
qed

text \<open>
  C4, as written: with no current token and an empty proof store the result is
  \<open>{ hasTokens: false }\<close>, not \<open>null\<close>. Where \<open>localStorage\<close> does not exist there is no
  token and no proof, and the source returns \<open>null\<close>.
\<close>

theorem C4_counterexample:
  "getOrCreateApiToken demo_services ''https://mint'' (Some 30)
      \<lparr>hasLocalStorage = False, proofsKey = Absent, tokenKey = None, wrappedKey = Absent, trace = []\<rparr>
     = (Null, \<lparr>hasLocalStorage = False, proofsKey = Absent, tokenKey = None, wrappedKey = Absent,
               trace = []\<rparr>)"
  by (simp add: getOrCreateApiToken_def)

text \<open>
  C4, amended: with \<open>localStorage\<close> available, no current token and no proofs entry in
  storage, \<open>getOrCreateApiToken\<close> returns \<open>{ hasTokens: false }\<close> (neither a token nor
  \<open>null\<close>) and changes nothing; without \<open>localStorage\<close> it returns \<open>null\<close>.
\<close>

theorem C4_getOrCreateApiToken_no_proofs:
  "(hasLocalStorage w \<and> \<not> truthy (tokenKey w) \<and> proofsKey w = Absent \<longrightarrow>
      getOrCreateApiToken sv mintUrl a w = (HasTokensFalse, w))
   \<and> (\<not> hasLocalStorage w \<longrightarrow> getOrCreateApiToken sv mintUrl a w = (Null, w))"
proof (intro conjI impI)
  assume h: "hasLocalStorage w \<and> \<not> truthy (tokenKey w) \<and> proofsKey w = Absent"
  show "getOrCreateApiToken sv mintUrl a w = (HasTokensFalse, w)"
  proof (cases "tokenKey w")
    case None
    with h show ?thesis by (simp add: getOrCreateApiToken_def)
  next
    case (Some t)
    with h have "t = []" by simp
    with Some h show ?thesis by (simp add: getOrCreateApiToken_def)
  qed
next
  assume "\<not> hasLocalStorage w"
  then show "getOrCreateApiToken sv mintUrl a w = (Null, w)"
    by (simp add: getOrCreateApiToken_def)
qed

theorem C4_getOrCreateApiToken_no_proofs_witness:
  "getOrCreateApiToken demo_services ''https://mint'' (Some 30) (world_with Absent None)
     = (HasTokensFalse, world_with Absent None)
   \<and> getOrCreateApiToken demo_services ''https://mint'' (Some 30)
       ((world_with Absent None)\<lparr>hasLocalStorage := False\<rparr>)
     = (Null, (world_with Absent None)\<lparr>hasLocalStorage := False\<rparr>)"
proof -
  let ?w = "world_with Absent None"
  have h: "hasLocalStorage ?w \<and> \<not> truthy (tokenKey ?w) \<and> proofsKey ?w = Absent"
          "\<not> hasLocalStorage (?w\<lparr>hasLocalStorage := False\<rparr>)"
    by (simp_all add: world_with_def)
  from C4_getOrCreateApiToken_no_proofs [of ?w demo_services "''https://mint''" "Some 30"]
       C4_getOrCreateApiToken_no_proofs [of "?w\<lparr>hasLocalStorage := False\<rparr>" demo_services
          "''https://mint''" "Some 30"] h
  show ?thesis by blast
qed

text \<open>
  The empty array is what \<open>generateApiToken\<close> stores once every proof has been sent. The
  test "if any tokens are available" of \<open>getOrCreateApiToken\<close> looks only for the
  entry, so in that state the call reaches the mint and the result is \<open>null\<close>.
\<close>

lemma getOrCreateApiToken_stored_empty_array:
  "getOrCreateApiToken demo_services ''https://mint'' (Some 30) (world_with (Holds []) None)
     = (Null, (world_with (Holds []) None)
                \<lparr>trace := [MintLoad ''https://mint'', MintSend ''https://mint'' 30 []]\<rparr>)"
  by (simp add: getOrCreateApiToken_def generateApiToken_def world_with_def demo_services_def
        Let_def emit_def generate_catch_def rounded_amount_def js_mod1_def)

lemma fetch_api_balance_ok:
  assumes "hasLocalStorage w" and "tokenKey w = Some t" and "t \<noteq> []"
      and "wallet_get sv (baseUrl @ ''v1/wallet/'') t = Responds status (Inr b)"
      and "response_ok status"
  shows "fetch_api_balance sv mintUrl baseUrl w =
           (if b > 0 then
              (0, snd (refundRemainingBalance sv mintUrl baseUrl None
                         (emit (FetchWallet (baseUrl @ ''v1/wallet/'') t) w)))
            else (b, emit (FetchWallet (baseUrl @ ''v1/wallet/'') t) w))"
  using assms by (simp add: fetch_api_balance_def Let_def)

lemma getBalance_trace: "set (trace w) \<subseteq> set (trace (snd (getBalanceFromStoredProofs w)))"
  by (auto simp: getBalanceFromStoredProofs_def split: slot.splits)

text \<open>
  C1, as written: a nonzero observed remote balance is reported as \<open>apiBalance\<close>. The
  source resets \<open>apiBalance\<close> to 0 once the refund has run: here the service reports
  5000 msat and \<open>apiBalance\<close> is 0, the refunded proof (5 sat) being counted in
  \<open>proofsBalance\<close> instead.
\<close>

theorem C1_counterexample:
  "wallet_get demo_services ''https://api/v1/wallet/'' ''cashuAlive'' = Responds 200 (Inr 5000)
   \<and> fst (fetchBalances demo_services ''https://mint'' ''https://api/''
            (world_with (Holds [proof_of 70 ''s2'']) (Some ''cashuAlive'')))
       = \<lparr>apiBalance = 0, proofsBalance = Finite 75000\<rparr>"
  by (simp add: fetchBalances_def fetch_api_balance_def refundRemainingBalance_def
        getBalanceFromStoredProofs_def receive_proofs_def append_proofs_def refund_finish_def
        invalidateApiToken_def world_with_def demo_services_def js_or_def endsWith_def
        response_ok_def sum_amounts_safe js_number_safe proof_of_def MSATS_PER_SAT_def Let_def
        emit_def)

text \<open>
  C1, amended: when \<open>fetchBalances\<close> finds a current token whose wallet query returns a
  positive balance, it runs \<open>refundRemainingBalance\<close> (the refund request is sent) and
  returns \<open>apiBalance = 0\<close>, \<open>proofsBalance\<close> being read from the store after the refund;
  a balance that is not positive is returned as \<open>apiBalance\<close> and no refund is run.
\<close>

theorem C1_fetchBalances_refunds_positive_balance:
  assumes "hasLocalStorage w" and "tokenKey w = Some t" and "t \<noteq> []"
      and "wallet_get sv (baseUrl @ ''v1/wallet/'') t = Responds status (Inr b)"
      and "response_ok status"
  shows "(0 < b \<longrightarrow>
            apiBalance (fst (fetchBalances sv mintUrl baseUrl w)) = 0
          \<and> fetchBalances sv mintUrl baseUrl w =
              (let w1 = snd (refundRemainingBalance sv mintUrl baseUrl None
                               (emit (FetchWallet (baseUrl @ ''v1/wallet/'') t) w))
               in (\<lparr>apiBalance = 0,
                    proofsBalance = js_mul (fst (getBalanceFromStoredProofs w1)) MSATS_PER_SAT\<rparr>,
                   snd (getBalanceFromStoredProofs w1)))
          \<and> (baseUrl \<noteq> [] \<longrightarrow>
               FetchRefund ((if endsWith baseUrl ''/'' then baseUrl else baseUrl @ ''/'')
                              @ ''v1/wallet/refund'') t
                 \<in> set (trace (snd (fetchBalances sv mintUrl baseUrl w)))))
       \<and> (b \<le> 0 \<longrightarrow>
            apiBalance (fst (fetchBalances sv mintUrl baseUrl w)) = b
          \<and> trace (snd (fetchBalances sv mintUrl baseUrl w))
              = trace (snd (getBalanceFromStoredProofs (emit (FetchWallet (baseUrl @ ''v1/wallet/'') t) w)))
          \<and> tokenKey (snd (fetchBalances sv mintUrl baseUrl w)) = Some t)"
proof (intro conjI impI)
  let ?v = "emit (FetchWallet (baseUrl @ ''v1/wallet/'') t) w"
  let ?w1 = "snd (refundRemainingBalance sv mintUrl baseUrl None ?v)"
  assume pos: "0 < b"
  have eq: "fetchBalances sv mintUrl baseUrl w =
          (\<lparr>apiBalance = 0, proofsBalance = js_mul (fst (getBalanceFromStoredProofs ?w1)) MSATS_PER_SAT\<rparr>,
           snd (getBalanceFromStoredProofs ?w1))"
    using pos by (simp add: fetchBalances_def fetch_api_balance_ok [OF assms] split_beta)
  show "apiBalance (fst (fetchBalances sv mintUrl baseUrl w)) = 0"
    by (simp add: eq)
  show "fetchBalances sv mintUrl baseUrl w =
              (let w1 = snd (refundRemainingBalance sv mintUrl baseUrl None
                               (emit (FetchWallet (baseUrl @ ''v1/wallet/'') t) w))
               in (\<lparr>apiBalance = 0,
                    proofsBalance = js_mul (fst (getBalanceFromStoredProofs w1)) MSATS_PER_SAT\<rparr>,
                   snd (getBalanceFromStoredProofs w1)))"
    by (simp add: eq Let_def)
  assume ne: "baseUrl \<noteq> []"
  have "FetchRefund ((if endsWith baseUrl ''/'' then baseUrl else baseUrl @ ''/'') @ ''v1/wallet/refund'') t
          \<in> set (trace ?w1)"
    using assms(1-3) ne by (intro refund_trace_grows) simp_all
  then show "FetchRefund ((if endsWith baseUrl ''/'' then baseUrl else baseUrl @ ''/'')
                              @ ''v1/wallet/refund'') t
                 \<in> set (trace (snd (fetchBalances sv mintUrl baseUrl w)))"
    using getBalance_trace [of ?w1] by (auto simp: eq)
next
  assume "b \<le> 0"
  then have eq: "fetchBalances sv mintUrl baseUrl w =
      (\<lparr>apiBalance = b,
        proofsBalance = js_mul (fst (getBalanceFromStoredProofs
                                      (emit (FetchWallet (baseUrl @ ''v1/wallet/'') t) w)))
                          MSATS_PER_SAT\<rparr>,
       snd (getBalanceFromStoredProofs (emit (FetchWallet (baseUrl @ ''v1/wallet/'') t) w)))"
    by (simp add: fetchBalances_def fetch_api_balance_ok [OF assms] split_beta)
  show "apiBalance (fst (fetchBalances sv mintUrl baseUrl w)) = b"
    by (simp add: eq)
  show "trace (snd (fetchBalances sv mintUrl baseUrl w))
          = trace (snd (getBalanceFromStoredProofs (emit (FetchWallet (baseUrl @ ''v1/wallet/'') t) w)))"
    by (simp add: eq)
  show "tokenKey (snd (fetchBalances sv mintUrl baseUrl w)) = Some t"
    using assms(2) by (auto simp: eq getBalanceFromStoredProofs_def split: slot.splits)
qed

theorem C1_fetchBalances_refunds_positive_balance_witness:
  "fetchBalances demo_services ''https://mint'' ''https://api/''
       (world_with (Holds [proof_of 70 ''s2'']) (Some ''cashuAlive''))
     = (\<lparr>apiBalance = 0, proofsBalance = Finite 75000\<rparr>,
        \<lparr>hasLocalStorage = True, proofsKey = Holds [proof_of 70 ''s2'', proof_of 5 ''r1''],
         tokenKey = None, wrappedKey = Absent,
         trace = [FetchWallet ''https://api/v1/wallet/'' ''cashuAlive'',
                  FetchRefund ''https://api/v1/wallet/refund'' ''cashuAlive'',
                  MintLoad ''https://mint'',
                  MintReceive ''https://mint'' ''cashuArefund'']\<rparr>)"
proof -
  let ?w = "world_with (Holds [proof_of 70 ''s2'']) (Some ''cashuAlive'')"
  let ?v = "emit (FetchWallet (''https://api/'' @ ''v1/wallet/'') ''cashuAlive'') ?w"
  let ?u = "\<lparr>hasLocalStorage = True, proofsKey = Holds [proof_of 70 ''s2'', proof_of 5 ''r1''],
             tokenKey = None, wrappedKey = Absent,
             trace = [FetchWallet ''https://api/v1/wallet/'' ''cashuAlive'',
                      FetchRefund ''https://api/v1/wallet/refund'' ''cashuAlive'',
                      MintLoad ''https://mint'',
                      MintReceive ''https://mint'' ''cashuArefund'']\<rparr>"
  have h: "hasLocalStorage ?w" "tokenKey ?w = Some ''cashuAlive''" "''cashuAlive'' \<noteq> []"
          "wallet_get demo_services (''https://api/'' @ ''v1/wallet/'') ''cashuAlive'' = Responds 200 (Inr 5000)"
          "response_ok 200"
    by (simp_all add: world_with_def demo_services_def response_ok_def)
  have r: "snd (refundRemainingBalance demo_services ''https://mint'' ''https://api/'' None ?v) = ?u"
    by (simp add: refundRemainingBalance_def receive_proofs_def append_proofs_def refund_finish_def
          invalidateApiToken_def world_with_def demo_services_def js_or_def endsWith_def
          response_ok_def Let_def emit_def)
  have g: "getBalanceFromStoredProofs ?u = (Finite 75, ?u)"
    by (simp add: getBalanceFromStoredProofs_def sum_amounts_safe proof_of_def)
  have pos: "(0::int) < 5000" by simp
  note inst = C1_fetchBalances_refunds_positive_balance [OF h, of "''https://mint''"]
  have "fetchBalances demo_services ''https://mint'' ''https://api/'' ?w =
          (let w1 = snd (refundRemainingBalance demo_services ''https://mint'' ''https://api/'' None ?v)
           in (\<lparr>apiBalance = 0,
                proofsBalance = js_mul (fst (getBalanceFromStoredProofs w1)) MSATS_PER_SAT\<rparr>,
               snd (getBalanceFromStoredProofs w1)))"
    by (rule conjunct1 [OF conjunct2 [OF mp [OF conjunct1 [OF inst] pos]]])
  also have "\<dots> = (\<lparr>apiBalance = 0, proofsBalance = js_mul (Finite 75) MSATS_PER_SAT\<rparr>, ?u)"
    unfolding r Let_def g by simp
  finally show ?thesis by (simp add: MSATS_PER_SAT_def js_number_safe)
qed

text \<open>
  C5: with a current token stored, when the wallet query answers with status 402,
  \<open>fetchBalances\<close> clears the current token and returns \<open>apiBalance = 0\<close>; when the query
  fails in any other way (the fetch rejects, the status is another non-ok status, or the
  body cannot be read) it returns \<open>apiBalance = 0\<close> as well and the current token stays.
  In both cases the stored proofs are untouched and a result is returned: every throwing
  step of the source lies inside its \<open>try\<close> block, whose \<open>catch\<close> only logs.
\<close>

theorem C5_fetchBalances_remote_failure:
  assumes "hasLocalStorage w" and "tokenKey w = Some t" and "t \<noteq> []"
  shows "(wallet_get sv (baseUrl @ ''v1/wallet/'') t = Responds 402 body \<longrightarrow>
            apiBalance (fst (fetchBalances sv mintUrl baseUrl w)) = 0
          \<and> tokenKey (snd (fetchBalances sv mintUrl baseUrl w)) = None
          \<and> proofsKey (snd (fetchBalances sv mintUrl baseUrl w)) = proofsKey w
          \<and> proofsBalance (fst (fetchBalances sv mintUrl baseUrl w))
              = js_mul (fst (getBalanceFromStoredProofs w)) MSATS_PER_SAT)
       \<and> ((wallet_get sv (baseUrl @ ''v1/wallet/'') t = Rejects err
           \<or> (wallet_get sv (baseUrl @ ''v1/wallet/'') t = Responds status body
                \<and> \<not> response_ok status \<and> status \<noteq> 402)
           \<or> (wallet_get sv (baseUrl @ ''v1/wallet/'') t = Responds status (Inl err)
                \<and> response_ok status)) \<longrightarrow>
            apiBalance (fst (fetchBalances sv mintUrl baseUrl w)) = 0
          \<and> tokenKey (snd (fetchBalances sv mintUrl baseUrl w)) = Some t
          \<and> proofsKey (snd (fetchBalances sv mintUrl baseUrl w)) = proofsKey w
          \<and> proofsBalance (fst (fetchBalances sv mintUrl baseUrl w))
              = js_mul (fst (getBalanceFromStoredProofs w)) MSATS_PER_SAT)"
proof -
  let ?w1 = "emit (FetchWallet (baseUrl @ ''v1/wallet/'') t) w"
  have bal: "fst (getBalanceFromStoredProofs w') = fst (getBalanceFromStoredProofs w)
             \<and> proofsKey (snd (getBalanceFromStoredProofs w')) = proofsKey w
             \<and> tokenKey (snd (getBalanceFromStoredProofs w')) = tokenKey w'"
    if "hasLocalStorage w' = hasLocalStorage w" "proofsKey w' = proofsKey w" for w'
    using that by (auto simp: getBalanceFromStoredProofs_def split: slot.splits)
  have fb: "fetchBalances sv mintUrl baseUrl w =
              (\<lparr>apiBalance = 0, proofsBalance = js_mul (fst (getBalanceFromStoredProofs w')) MSATS_PER_SAT\<rparr>,
               snd (getBalanceFromStoredProofs w'))"
    if "fetch_api_balance sv mintUrl baseUrl w = (0, w')" for w'
    using that by (simp add: fetchBalances_def split_beta)
  have not402: "\<not> response_ok 402" by (simp add: response_ok_def)
  have c402: "fetch_api_balance sv mintUrl baseUrl w =
                (0, emit (ConsoleWarn ''API token invalidated due to insufficient balance.'')
                      (invalidateApiToken ?w1))"
    if "wallet_get sv (baseUrl @ ''v1/wallet/'') t = Responds 402 body"
    using that assms not402 by (simp add: fetch_api_balance_def Let_def)
  have crej: "fetch_api_balance sv mintUrl baseUrl w =
                (0, emit (ConsoleError ''Error fetching API balance:'') ?w1)"
    if "wallet_get sv (baseUrl @ ''v1/wallet/'') t = Rejects err"
    using that assms by (simp add: fetch_api_balance_def Let_def)
  have cstat: "fetch_api_balance sv mintUrl baseUrl w =
                (0, emit (ConsoleError (''Failed to fetch wallet balance: '' @ show_nat status)) ?w1)"
    if "wallet_get sv (baseUrl @ ''v1/wallet/'') t = Responds status body"
       "\<not> response_ok status" "status \<noteq> 402"
    using that assms by (simp add: fetch_api_balance_def Let_def)
  have cjson: "fetch_api_balance sv mintUrl baseUrl w =
                (0, emit (ConsoleError ''Error fetching API balance:'') ?w1)"
    if "wallet_get sv (baseUrl @ ''v1/wallet/'') t = Responds status (Inl err)" "response_ok status"
    using that assms by (simp add: fetch_api_balance_def Let_def)
  show ?thesis
  proof (intro conjI impI)
    assume a: "wallet_get sv (baseUrl @ ''v1/wallet/'') t = Responds 402 body"
    let ?w' = "emit (ConsoleWarn ''API token invalidated due to insufficient balance.'')
                 (invalidateApiToken ?w1)"
    have w': "hasLocalStorage ?w' = hasLocalStorage w" "proofsKey ?w' = proofsKey w" "tokenKey ?w' = None"
      using assms(1) by (simp_all add: invalidateApiToken_def)
    note eq = fb [OF c402 [OF a]]
    show "apiBalance (fst (fetchBalances sv mintUrl baseUrl w)) = 0" by (simp add: eq)
    show "tokenKey (snd (fetchBalances sv mintUrl baseUrl w)) = None"
      using bal [OF w'(1,2)] w'(3) by (simp add: eq)
    show "proofsKey (snd (fetchBalances sv mintUrl baseUrl w)) = proofsKey w"
      using bal [OF w'(1,2)] by (simp add: eq)
    show "proofsBalance (fst (fetchBalances sv mintUrl baseUrl w))
            = js_mul (fst (getBalanceFromStoredProofs w)) MSATS_PER_SAT"
      using bal [OF w'(1,2)] by (simp add: eq)
  next
    assume a: "wallet_get sv (baseUrl @ ''v1/wallet/'') t = Rejects err
           \<or> (wallet_get sv (baseUrl @ ''v1/wallet/'') t = Responds status body
                \<and> \<not> response_ok status \<and> status \<noteq> 402)
           \<or> (wallet_get sv (baseUrl @ ''v1/wallet/'') t = Responds status (Inl err)
                \<and> response_ok status)"
    then obtain msg where "fetch_api_balance sv mintUrl baseUrl w = (0, emit (ConsoleError msg) ?w1)"
      using crej cstat cjson by blast
    note eq = fb [OF this]
    have w': "hasLocalStorage (emit (ConsoleError msg) ?w1) = hasLocalStorage w"
             "proofsKey (emit (ConsoleError msg) ?w1) = proofsKey w"
             "tokenKey (emit (ConsoleError msg) ?w1) = Some t"
      using assms(2) by simp_all
    show "apiBalance (fst (fetchBalances sv mintUrl baseUrl w)) = 0" by (simp add: eq)
    show "tokenKey (snd (fetchBalances sv mintUrl baseUrl w)) = Some t"
      using bal [OF w'(1,2)] w'(3) by (simp add: eq)
    show "proofsKey (snd (fetchBalances sv mintUrl baseUrl w)) = proofsKey w"
      using bal [OF w'(1,2)] by (simp add: eq)
    show "proofsBalance (fst (fetchBalances sv mintUrl baseUrl w))
            = js_mul (fst (getBalanceFromStoredProofs w)) MSATS_PER_SAT"
      using bal [OF w'(1,2)] by (simp add: eq)
  qed
qed

theorem C5_fetchBalances_remote_failure_witness:
  "apiBalance (fst (fetchBalances demo_services ''https://mint'' ''https://api/''
      (world_with (Holds [proof_of 70 ''s2'']) (Some ''cashuAexhausted'')))) = 0
   \<and> tokenKey (snd (fetchBalances demo_services ''https://mint'' ''https://api/''
      (world_with (Holds [proof_of 70 ''s2'']) (Some ''cashuAexhausted'')))) = None
   \<and> apiBalance (fst (fetchBalances demo_services ''https://mint'' ''https://api/''
      (world_with (Holds [proof_of 70 ''s2'']) (Some ''cashuAoffline'')))) = 0
   \<and> tokenKey (snd (fetchBalances demo_services ''https://mint'' ''https://api/''
      (world_with (Holds [proof_of 70 ''s2'']) (Some ''cashuAoffline'')))) = Some ''cashuAoffline''
   \<and> apiBalance (fst (fetchBalances demo_services ''https://mint'' ''https://api/''
      (world_with (Holds [proof_of 70 ''s2'']) (Some ''cashuAerror'')))) = 0"
proof -
  have h: "hasLocalStorage (world_with (Holds [proof_of 70 ''s2'']) (Some tk))"
          "tokenKey (world_with (Holds [proof_of 70 ''s2'']) (Some tk)) = Some tk" for tk
    by (simp_all add: world_with_def)
  have g: "wallet_get demo_services (''https://api/'' @ ''v1/wallet/'') ''cashuAexhausted''
             = Responds 402 (Inl ''Unexpected end of JSON input'')"
          "wallet_get demo_services (''https://api/'' @ ''v1/wallet/'') ''cashuAoffline''
             = Rejects ''Failed to fetch''"
          "wallet_get demo_services (''https://api/'' @ ''v1/wallet/'') ''cashuAerror''
             = Responds 500 (Inr 0)"
          "\<not> response_ok 500"
    by (simp_all add: demo_services_def response_ok_def)
  from C5_fetchBalances_remote_failure [OF h [of "''cashuAexhausted''"], where sv = demo_services
          and baseUrl = "''https://api/''" and mintUrl = "''https://mint''"
          and body = "Inl ''Unexpected end of JSON input''"]
       C5_fetchBalances_remote_failure [OF h [of "''cashuAoffline''"], where sv = demo_services
          and baseUrl = "''https://api/''" and mintUrl = "''https://mint''"
          and err = "''Failed to fetch''"]
       C5_fetchBalances_remote_failure [OF h [of "''cashuAerror''"], where sv = demo_services
          and baseUrl = "''https://api/''" and mintUrl = "''https://mint''"
          and status = 500 and body = "Inr 0"]
       g
  show ?thesis by simp
qed

text \<open>
  C2, as written: a mint failure other than insufficient funds surfaces as a
  token-generation failure rather than \<open>null\<close>. In the source both branches of the
  \<open>catch\<close> block return \<open>null\<close>; only the logging differs. Here the split fails with
  "Network request failed" and the result is \<open>null\<close>.
\<close>

theorem C2_counterexample:
  "wallet_send offline_mint ''https://mint'' 30 [proof_of 100 ''s1''] = SendThrows ''Network request failed''
   \<and> \<not> str_includes ''Network request failed'' ''funds''
   \<and> fst (generateApiToken offline_mint ''https://mint'' 30 (world_with (Holds [proof_of 100 ''s1'']) None))
       = None"
  by (simp add: generateApiToken_def offline_mint_def demo_services_def world_with_def Let_def
        generate_catch_def emit_def)

text \<open>
  C2, amended: for every amount and stored proof set, if the mint's split throws, whether
  for insufficient funds or for any other reason, \<open>generateApiToken\<close> returns \<open>null\<close> and
  the stored proof set and current token are unchanged; a failure whose message does not
  contain "funds" is also logged with \<open>console.error\<close>.
\<close>

theorem C2_generateApiToken_mint_failure:
  assumes "hasLocalStorage w" and "proofsKey w = Holds P" and "loadMint sv mintUrl = None"
      and "wallet_send sv mintUrl (rounded_amount amount0) P = SendThrows err"
  shows "fst (generateApiToken sv mintUrl amount0 w) = None
       \<and> proofsKey (snd (generateApiToken sv mintUrl amount0 w)) = Holds P
       \<and> tokenKey (snd (generateApiToken sv mintUrl amount0 w)) = tokenKey w
       \<and> trace (snd (generateApiToken sv mintUrl amount0 w))
           = trace w @ [MintLoad mintUrl, MintSend mintUrl (rounded_amount amount0) P]
               @ (if str_includes err ''funds'' then []
                  else [ConsoleError ''Failed to generate API token:''])"
  using assms by (simp add: generateApiToken_def Let_def generate_catch_def)

theorem C2_generateApiToken_mint_failure_witness:
  "fst (generateApiToken demo_services ''https://mint'' (201 / 2) (world_with (Holds [proof_of 100 ''s1'']) None))
     = None
   \<and> proofsKey (snd (generateApiToken demo_services ''https://mint'' (201 / 2)
        (world_with (Holds [proof_of 100 ''s1'']) None))) = Holds [proof_of 100 ''s1'']
   \<and> trace (snd (generateApiToken demo_services ''https://mint'' (201 / 2)
        (world_with (Holds [proof_of 100 ''s1'']) None)))
       = [MintLoad ''https://mint'', MintSend ''https://mint'' 101 [proof_of 100 ''s1''] ]
   \<and> fst (generateApiToken offline_mint ''https://mint'' 30 (world_with (Holds [proof_of 100 ''s1'']) None))
       = None
   \<and> trace (snd (generateApiToken offline_mint ''https://mint'' 30
        (world_with (Holds [proof_of 100 ''s1'']) None)))
       = [MintLoad ''https://mint'', MintSend ''https://mint'' 30 [proof_of 100 ''s1''],
          ConsoleError ''Failed to generate API token:'']"
proof -
  let ?w = "world_with (Holds [proof_of 100 ''s1'']) None"
  have h: "hasLocalStorage ?w" "proofsKey ?w = Holds [proof_of 100 ''s1'']"
    by (simp_all add: world_with_def)
  have m: "loadMint demo_services ''https://mint'' = None" "loadMint offline_mint ''https://mint'' = None"
    by (simp_all add: demo_services_def offline_mint_def)
  have ra: "rounded_amount (201 / 2) = 101" "rounded_amount 30 = 30"
    by code_simp+
  have s1: "wallet_send demo_services ''https://mint'' (rounded_amount (201 / 2)) [proof_of 100 ''s1'']
              = SendThrows ''Not enough funds available''"
    by (simp add: ra demo_services_def proof_of_def)
  have s2: "wallet_send offline_mint ''https://mint'' (rounded_amount 30) [proof_of 100 ''s1'']
              = SendThrows ''Network request failed''"
    by (simp add: offline_mint_def)
  have i: "str_includes ''Not enough funds available'' ''funds''"
          "\<not> str_includes ''Network request failed'' ''funds''"
    by simp_all
  have t: "trace ?w = []" "tokenKey ?w = None" by (simp_all add: world_with_def)
  from C2_generateApiToken_mint_failure [OF h m(1) s1] C2_generateApiToken_mint_failure [OF h m(2) s2]
  show ?thesis unfolding ra by (simp add: i t)
qed

lemma unwrap_some_world:
  "unwrapCashuToken nt event sk w = (Some g, w') \<Longrightarrow> w' = w"
  by (auto simp: unwrapCashuToken_def Let_def split: sum.splits if_splits)

lemma getStored_storage [simp]:
  "hasLocalStorage (snd (getStoredWrappedTokens w)) = hasLocalStorage w"
  "proofsKey (snd (getStoredWrappedTokens w)) = proofsKey w"
  "tokenKey (snd (getStoredWrappedTokens w)) = tokenKey w"
  by (auto simp: getStoredWrappedTokens_def split: slot.splits)

lemma removeWrappedToken_list:
  "fst (getStoredWrappedTokens (removeWrappedToken i w))
     = filter (\<lambda>t. event_id t \<noteq> i) (fst (getStoredWrappedTokens w))"
  by (auto simp: removeWrappedToken_def getStoredWrappedTokens_def Let_def split: slot.splits)

lemma removeWrappedToken_key:
  "hasLocalStorage w \<Longrightarrow>
     wrappedKey (removeWrappedToken i w) = Holds (filter (\<lambda>t. event_id t \<noteq> i) (fst (getStoredWrappedTokens w)))"
  by (auto simp: removeWrappedToken_def getStoredWrappedTokens_def Let_def split: slot.splits)

lemma removeWrappedToken_frame:
  "hasLocalStorage (removeWrappedToken i w) = hasLocalStorage w
   \<and> proofsKey (removeWrappedToken i w) = proofsKey w
   \<and> tokenKey (removeWrappedToken i w) = tokenKey w"
  by (auto simp: removeWrappedToken_def getStoredWrappedTokens_def Let_def split: slot.splits)

text \<open>
  C10: whenever the client's \<open>unwrapCashuToken\<close> succeeds on an event, the stored
  sent-gift list afterwards is the previous list without the entries whose id is the
  event's id, the others in their original order; with \<open>localStorage\<close> available that
  filtered list is what the entry holds, and the stored proofs and current token are
  untouched.
\<close>

theorem C10_unwrap_removes_sent_gift:
  assumes "success (fst (RoutstrClient_unwrapCashuToken nt privateKey event w))"
  shows "fst (getStoredWrappedTokens (snd (RoutstrClient_unwrapCashuToken nt privateKey event w)))
           = filter (\<lambda>t. event_id t \<noteq> event_id event) (fst (getStoredWrappedTokens w))
       \<and> (hasLocalStorage w \<longrightarrow>
            wrappedKey (snd (RoutstrClient_unwrapCashuToken nt privateKey event w))
              = Holds (filter (\<lambda>t. event_id t \<noteq> event_id event) (fst (getStoredWrappedTokens w))))
       \<and> proofsKey (snd (RoutstrClient_unwrapCashuToken nt privateKey event w)) = proofsKey w
       \<and> tokenKey (snd (RoutstrClient_unwrapCashuToken nt privateKey event w)) = tokenKey w"
proof -
  obtain r w1 where u: "unwrapCashuToken nt event privateKey w = (r, w1)"
    by (cases "unwrapCashuToken nt event privateKey w") auto
  from assms u obtain g where g: "r = Some g" and v: "isValidCashuGiftWrap event"
    by (cases r) (auto simp: RoutstrClient_unwrapCashuToken_def split: if_splits)
  from u g have "w1 = w" by (auto dest: unwrap_some_world)
  with u g v have "snd (RoutstrClient_unwrapCashuToken nt privateKey event w)
                   = removeWrappedToken (event_id event) w"
    by (simp add: RoutstrClient_unwrapCashuToken_def)
  then show ?thesis
    by (simp add: removeWrappedToken_list removeWrappedToken_key removeWrappedToken_frame)
qed

theorem C10_unwrap_removes_sent_gift_witness:
  "success (fst (RoutstrClient_unwrapCashuToken toy_tools bob_key gift_event
      \<lparr>hasLocalStorage = True, proofsKey = Absent, tokenKey = None,
       wrappedKey = Holds [other_event, gift_event, other_event], trace = []\<rparr>))
   \<and> wrappedKey (snd (RoutstrClient_unwrapCashuToken toy_tools bob_key gift_event
      \<lparr>hasLocalStorage = True, proofsKey = Absent, tokenKey = None,
       wrappedKey = Holds [other_event, gift_event, other_event], trace = []\<rparr>))
       = Holds [other_event, other_event]"
proof -
  let ?w = "\<lparr>hasLocalStorage = True, proofsKey = Absent, tokenKey = None,
             wrappedKey = Holds [other_event, gift_event, other_event], trace = []\<rparr>"
  have u: "unwrapCashuToken toy_tools gift_event bob_key ?w
             = (Some \<lparr>gift_token = Some (JString ''cashuAgift''), gift_recipientPubkey = ''b0b'',
                      gift_note = Some (JString ''hi'')\<rparr>, ?w)"
    by (simp add: unwrapCashuToken_def toy_tools_def toy_pub_def toy_shared_def gift_event_def
          bob_key_def alice_key_def carol_key_def gift_payload_def Let_def)
  have v: "isValidCashuGiftWrap gift_event"
    by (simp add: isValidCashuGiftWrap_def gift_event_def)
  have s: "success (fst (RoutstrClient_unwrapCashuToken toy_tools bob_key gift_event ?w))"
    by (simp add: RoutstrClient_unwrapCashuToken_def u v)
  have f: "filter (\<lambda>t. event_id t \<noteq> event_id gift_event) (fst (getStoredWrappedTokens ?w))
             = [other_event, other_event]"
    by (simp add: getStoredWrappedTokens_def gift_event_def other_event_def)
  from C10_unwrap_removes_sent_gift [OF s] s f show ?thesis by simp
qed

lemma unwrap_not_for_us:
  assumes "getPublicKey nt sk = Inr pk"
      and "\<not> list_ex (\<lambda>tag. js_index tag 0 = Some ''p'' \<and> js_index tag 1 = Some pk) (tags e)"
  shows "unwrapCashuToken nt e sk w = (None, w)"
  using assms by (simp add: unwrapCashuToken_def Let_def)

text \<open>
  C7: let the sender and recipient keys have public keys \<open>senderPub\<close> and \<open>recipientPub\<close>,
  let \<open>nip04.encrypt\<close> under the sender's key and the recipient's public key succeed and
  \<open>nip04.decrypt\<close> under the recipient's key and the sender's public key invert it, let
  \<open>finalizeEvent\<close> succeed, keep tags and content and set the sender's public key, and
  let \<open>JSON.parse\<close> invert \<open>JSON.stringify\<close> on the payload. Then for every token and
  every note, given or not, \<open>wrapCashuToken\<close> returns an event, and unwrapping that event
  gives back exactly the token and the note (absent when none was given), with no
  effect on the world. Unwrapping with a key whose public key is not the one in the
  event's \<open>p\<close> tag returns \<open>null\<close>, for the wrapped event and for any event.
\<close>

theorem C7_wrap_unwrap_roundtrip:
  assumes keys: "getPublicKey nt senderKey = Inr senderPub"
                "getPublicKey nt recipientKey = Inr recipientPub"
      and nip04: "\<forall>text. \<exists>ct. nip04_encrypt nt senderKey recipientPub text = Inr ct
                     \<and> nip04_decrypt nt recipientKey senderPub ct = Inr text"
      and fin: "\<forall>e. \<exists>e'. finalizeEvent nt e senderKey = Inr e'
                     \<and> tags e' = tags e \<and> content e' = content e \<and> pubkey e' = senderPub"
      and json: "JSON_parse nt (JSON_stringify nt (gift_payload token note))
                   = Inr (gift_payload token note)"
  shows "(\<exists>ev. wrapCashuToken nt token recipientPub senderKey note now = Inr ev
            \<and> unwrapCashuToken nt ev recipientKey w
                = (Some \<lparr>gift_token = Some (JString token), gift_recipientPubkey = recipientPub,
                         gift_note = map_option JString note\<rparr>, w)
            \<and> (getPublicKey nt otherKey = Inr otherPub \<and> otherPub \<noteq> recipientPub \<longrightarrow>
                 unwrapCashuToken nt ev otherKey w = (None, w)))
       \<and> (getPublicKey nt otherKey = Inr otherPub
          \<and> \<not> list_ex (\<lambda>tag. js_index tag 0 = Some ''p'' \<and> js_index tag 1 = Some otherPub) (tags e)
          \<longrightarrow> unwrapCashuToken nt e otherKey w = (None, w))"
proof -
  from nip04 obtain ct where
      enc: "nip04_encrypt nt senderKey recipientPub (JSON_stringify nt (gift_payload token note)) = Inr ct"
    and dec: "nip04_decrypt nt recipientKey senderPub ct
                = Inr (JSON_stringify nt (gift_payload token note))"
    by blast
  define e0 where "e0 = \<lparr>kind = 1059, pubkey = senderPub, created_at = now div 1000,
      tags = [ [''p'', recipientPub], [''gift'', ''cashu''] ], content = ct,
      event_id = getEventHash nt \<lparr>kind = 1059, pubkey = senderPub, created_at = now div 1000,
        tags = [ [''p'', recipientPub], [''gift'', ''cashu''] ], content = ct,
        event_id = [], sig = []\<rparr>,
      sig = []\<rparr>"
  have e0: "tags e0 = [ [''p'', recipientPub], [''gift'', ''cashu''] ]" "content e0 = ct"
    by (simp_all add: e0_def)
  from fin obtain ev where f: "finalizeEvent nt e0 senderKey = Inr ev"
    and ev': "tags ev = tags e0" "content ev = content e0" "pubkey ev = senderPub"
    by blast
  have ev: "tags ev = [ [''p'', recipientPub], [''gift'', ''cashu''] ]" "content ev = ct"
           "pubkey ev = senderPub"
    using ev' e0 by simp_all
  have wrapped: "wrapCashuToken nt token recipientPub senderKey note now = Inr ev"
    using keys(1) enc f by (simp add: wrapCashuToken_def Let_def e0_def)
  have props: "get_prop (gift_payload token note) ''token'' = Inr (Some (JString token))"
              "get_prop (gift_payload token note) ''note'' = Inr (map_option JString note)"
    by (cases "note"; simp add: gift_payload_def)+
  have one: "unwrapCashuToken nt ev recipientKey w
           = (Some \<lparr>gift_token = Some (JString token), gift_recipientPubkey = recipientPub,
                    gift_note = map_option JString note\<rparr>, w)"
    by (simp add: unwrapCashuToken_def Let_def keys ev dec json props)
  have two: "unwrapCashuToken nt ev otherKey w = (None, w)"
    if "getPublicKey nt otherKey = Inr otherPub" "otherPub \<noteq> recipientPub"
    using that by (intro unwrap_not_for_us [where pk = otherPub]) (auto simp: ev)
  have three: "unwrapCashuToken nt e otherKey w = (None, w)"
    if "getPublicKey nt otherKey = Inr otherPub"
       "\<not> list_ex (\<lambda>tag. js_index tag 0 = Some ''p'' \<and> js_index tag 1 = Some otherPub) (tags e)"
    using that by (rule unwrap_not_for_us)
  from wrapped one two three show ?thesis by blast
qed

theorem C7_wrap_unwrap_roundtrip_witness:
  "wrapCashuToken toy_tools ''cashuAgift'' ''b0b'' alice_key None 1700000000999 = Inr plain_gift_event
   \<and> unwrapCashuToken toy_tools plain_gift_event bob_key (world_with Absent None)
       = (Some \<lparr>gift_token = Some (JString ''cashuAgift''), gift_recipientPubkey = ''b0b'',
                gift_note = None\<rparr>, world_with Absent None)
   \<and> wrapCashuToken toy_tools ''cashuAgift'' ''b0b'' alice_key (Some ''hi'') 1700000000999 = Inr gift_event
   \<and> unwrapCashuToken toy_tools gift_event bob_key (world_with Absent None)
       = (Some \<lparr>gift_token = Some (JString ''cashuAgift''), gift_recipientPubkey = ''b0b'',
                gift_note = Some (JString ''hi'')\<rparr>, world_with Absent None)
   \<and> unwrapCashuToken toy_tools gift_event carol_key (world_with Absent None)
       = (None, world_with Absent None)"
proof -
  have keys: "getPublicKey toy_tools alice_key = Inr ''a11ce''"
             "getPublicKey toy_tools bob_key = Inr ''b0b''"
             "getPublicKey toy_tools carol_key = Inr ''ca401''"
    by (simp_all add: toy_tools_def toy_pub_def alice_key_def bob_key_def carol_key_def)
  have sh: "toy_shared alice_key ''b0b''" "toy_shared bob_key ''a11ce''"
    by (simp_all add: toy_shared_def)
  have nip04: "\<forall>text. \<exists>ct. nip04_encrypt toy_tools alice_key ''b0b'' text = Inr ct
                 \<and> nip04_decrypt toy_tools bob_key ''a11ce'' ct = Inr text"
    by (simp add: toy_tools_def sh)
  have fin: "\<forall>e. \<exists>e'. finalizeEvent toy_tools e alice_key = Inr e'
                 \<and> tags e' = tags e \<and> content e' = content e \<and> pubkey e' = ''a11ce''"
    by (simp add: toy_tools_def toy_pub_def)
  have json: "JSON_parse toy_tools (JSON_stringify toy_tools (gift_payload ''cashuAgift'' n))
                = Inr (gift_payload ''cashuAgift'' n)" if "n = None \<or> n = Some ''hi''" for n
    using that by (auto simp: toy_tools_def gift_payload_def)
  have plain: "wrapCashuToken toy_tools ''cashuAgift'' ''b0b'' alice_key None 1700000000999
                 = Inr plain_gift_event"
    by (simp add: wrapCashuToken_def toy_tools_def sh toy_pub_def plain_gift_event_def
          gift_event_def gift_payload_def Let_def)
  have noted: "wrapCashuToken toy_tools ''cashuAgift'' ''b0b'' alice_key (Some ''hi'') 1700000000999
                 = Inr gift_event"
    by (simp add: wrapCashuToken_def toy_tools_def sh toy_pub_def gift_event_def gift_payload_def
          Let_def)
  have ne: "''ca401'' \<noteq> ''b0b''" by simp
  from C7_wrap_unwrap_roundtrip [OF keys(1,2) nip04 fin json, of None 1700000000999
         "world_with Absent None" carol_key "''ca401''"] plain
  have a: "unwrapCashuToken toy_tools plain_gift_event bob_key (world_with Absent None)
       = (Some \<lparr>gift_token = Some (JString ''cashuAgift''), gift_recipientPubkey = ''b0b'',
                gift_note = None\<rparr>, world_with Absent None)"
    by auto
  from C7_wrap_unwrap_roundtrip [OF keys(1,2) nip04 fin json, of "Some ''hi''" 1700000000999
         "world_with Absent None" carol_key "''ca401''"] noted keys(3) ne
  have b: "unwrapCashuToken toy_tools gift_event bob_key (world_with Absent None)
       = (Some \<lparr>gift_token = Some (JString ''cashuAgift''), gift_recipientPubkey = ''b0b'',
                gift_note = Some (JString ''hi'')\<rparr>, world_with Absent None)
     \<and> unwrapCashuToken toy_tools gift_event carol_key (world_with Absent None)
       = (None, world_with Absent None)"
    by auto
  from plain noted a b show ?thesis by simp
qed

end
